theory Spec2Isabelle
  imports Main "HOL-Library.AList" "HOL-Library.Sublist"
begin

section \<open>The publication manifest builder of \<^verbatim>\<open>src/common/js/pub.js\<close>\<close>

text \<open>
  The repository is one JavaScript function, \<^verbatim>\<open>create_manifest(config)\<close>. It reads the
  ReSpec configuration and the rendered document, builds a manifest object, and appends
  the manifest, serialised as JSON, to the head of the document.

  Conventions of the embedding:
  \<^item> a JavaScript string is a \<^typ>\<open>string\<close>; the program compares strings with
    ASCII literals only, and changes the letter case of the status, which is modelled
    on the ASCII letters;
  \<^item> \<^verbatim>\<open>null\<close> and \<^verbatim>\<open>undefined\<close> results of a lookup are \<^const>\<open>None\<close>;
  \<^item> an object whose keys are created in program order is an association list, and
    an assignment to a property is \<^const>\<open>AList.update\<close>: the value is replaced
    in place when the key exists and the pair is appended otherwise, as the property
    order of a JavaScript object has it;
  \<^item> the exception raised by a method call on \<^verbatim>\<open>null\<close> is the value
    \<open>Inl TypeError\<close>.
\<close>

subsection \<open>Strings\<close>

definition startsWith :: "string \<Rightarrow> string \<Rightarrow> bool" where
  "startsWith s p = (take (length p) s = p)"

definition endsWith :: "string \<Rightarrow> string \<Rightarrow> bool" where
  "endsWith s p = (length p \<le> length s \<and> drop (length s - length p) s = p)"

text \<open>
  \<^verbatim>\<open>toUpperCase\<close> and \<^verbatim>\<open>toLowerCase\<close> on the ASCII letters; every other
  character is left as it is. The JavaScript functions also map the letters outside
  ASCII (U+00E9 to U+00C9, U+00DF to SS): for a status with such a letter, the file
  names that the default branch and the CG and BG branches of the status switch build
  are not the ones computed here. Every status of the table is ASCII, and so is every
  letter case of it.
\<close>

definition toUpperChar :: "char \<Rightarrow> char" where
  "toUpperChar c =
     (let n = (of_char c :: nat) in if 97 \<le> n \<and> n \<le> 122 then char_of (n - 32) else c)"

definition toLowerChar :: "char \<Rightarrow> char" where
  "toLowerChar c =
     (let n = (of_char c :: nat) in if 65 \<le> n \<and> n \<le> 90 then char_of (n + 32) else c)"

definition toUpperCase :: "string \<Rightarrow> string" where
  "toUpperCase s = map toUpperChar s"

definition toLowerCase :: "string \<Rightarrow> string" where
  "toLowerCase s = map toLowerChar s"

text \<open>A value in a condition: \<^verbatim>\<open>null\<close> and the empty string are falsy.\<close>

fun truthy :: "string option \<Rightarrow> bool" where
  "truthy None = False"
| "truthy (Some s) = (s \<noteq> [])"

subsection \<open>The three local helpers\<close>

text \<open>
  \<^verbatim>\<open>is_relative\<close> (lines 13 to 16). \<^verbatim>\<open>url[0]\<close> of the empty string is
  \<^verbatim>\<open>undefined\<close>, which is not \<^verbatim>\<open>'#'\<close>.
\<close>

definition is_relative :: "string \<Rightarrow> bool" where
  "is_relative url =
     (if (case url of [] \<Rightarrow> False | c # _ \<Rightarrow> c = CHR ''#'')
          \<or> startsWith url ''http://'' \<or> startsWith url ''https://''
          \<or> startsWith url ''mailto:''
      then False else True)"

text \<open>\<^verbatim>\<open>image_type\<close> (lines 18 to 34); \<^const>\<open>None\<close> is its \<^verbatim>\<open>null\<close>.\<close>

definition image_type :: "string \<Rightarrow> string option" where
  "image_type img =
     (if endsWith img ''.gif'' then Some ''image/gif''
      else if endsWith img ''.png'' then Some ''image/png''
      else if endsWith img ''.bmp'' then Some ''image/bmp''
      else if endsWith img ''.jpg'' \<or> endsWith img ''.jpeg'' then Some ''image/jpeg''
      else if endsWith img ''.svg'' then Some ''image/svg+xml''
      else if endsWith img ''.pdf'' then Some ''application/pdf''
      else None)"

text \<open>
  A LinkedResource is an object all of whose values are strings, with its keys in the
  order of their creation. \<^verbatim>\<open>entry.url\<close> is \<^verbatim>\<open>undefined\<close> when there is no such key.
\<close>

type_synonym linked_resource = "(string \<times> string) list"

definition entry_url :: "linked_resource \<Rightarrow> string option" where
  "entry_url entry = map_of entry ''url''"

definition set_prop :: "string \<Rightarrow> 'v \<Rightarrow> (string \<times> 'v) list \<Rightarrow> (string \<times> 'v) list" where
  "set_prop k v obj = AList.update k v obj"

text \<open>
  \<^verbatim>\<open>uniq\<close> (lines 36 to 48): a filter whose callback keeps the keys seen so far in
  \<^verbatim>\<open>buffer\<close>. \<^verbatim>\<open>buffer.indexOf(key) !== -1\<close> is membership.
\<close>

fun uniq_filter :: "string option list \<Rightarrow> linked_resource list \<Rightarrow> linked_resource list" where
  "uniq_filter buffer [] = []"
| "uniq_filter buffer (entry # arr) =
     (let key = entry_url entry in
      if key \<in> set buffer then uniq_filter buffer arr
      else entry # uniq_filter (buffer @ [key]) arr)"

definition uniq :: "linked_resource list \<Rightarrow> linked_resource list" where
  "uniq arr = uniq_filter [] arr"

subsection \<open>The document\<close>

text \<open>
  An element has a tag name, its attributes in source order, and a text content.
  \<^verbatim>\<open>getAttribute\<close> gives the value of the first attribute of that name, or
  \<^verbatim>\<open>null\<close>; \<^verbatim>\<open>setAttribute\<close> replaces the value or adds the attribute.
  Tag and attribute names are in lower case, as the HTML parser leaves them.
\<close>

record element =
  tagName :: string
  attributes :: "(string \<times> string) list"
  textContent :: string

definition getAttribute :: "element \<Rightarrow> string \<Rightarrow> string option" where
  "getAttribute e name = map_of (attributes e) name"

definition setAttribute :: "string \<Rightarrow> string \<Rightarrow> element \<Rightarrow> element" where
  "setAttribute name v e = e\<lparr>attributes := AList.update name v (attributes e)\<rparr>"

definition createElement :: "string \<Rightarrow> element" where
  "createElement t = \<lparr>tagName = t, attributes = [], textContent = []\<rparr>"

text \<open>
  An HTML document always has a head. The document is the list of the elements inside
  the head and the list of the elements after it, both in document order; none of the
  selectors of the program matches the \<^verbatim>\<open>html\<close>, \<^verbatim>\<open>head\<close> or \<^verbatim>\<open>body\<close>
  element itself. \<^verbatim>\<open>head.appendChild\<close> adds at the end of the first list.
\<close>

record document =
  headContent :: "element list"
  bodyContent :: "element list"

definition all_elements :: "document \<Rightarrow> element list" where
  "all_elements d = headContent d @ bodyContent d"

text \<open>The class selector matches a token of the class attribute, split at ASCII white space.\<close>

definition is_ascii_whitespace :: "char \<Rightarrow> bool" where
  "is_ascii_whitespace c =
     (c = CHR 0x09 \<or> c = CHR 0x0A \<or> c = CHR 0x0C \<or> c = CHR 0x0D \<or> c = CHR 0x20)"

fun split_tokens :: "string \<Rightarrow> string \<Rightarrow> string list" where
  "split_tokens cur [] = (if cur = [] then [] else [cur])"
| "split_tokens cur (c # cs) =
     (if is_ascii_whitespace c
      then (if cur = [] then [] else [cur]) @ split_tokens [] cs
      else split_tokens (cur @ [c]) cs)"

definition classList :: "element \<Rightarrow> string list" where
  "classList e = (case getAttribute e ''class'' of None \<Rightarrow> [] | Some v \<Rightarrow> split_tokens [] v)"

text \<open>The selectors the program uses: \<^verbatim>\<open>tag\<close>, \<^verbatim>\<open>tag#id\<close> and \<^verbatim>\<open>tag.class\<close>.\<close>

datatype selector = ByTag string | ByTagId string string | ByTagClass string string

fun matches :: "selector \<Rightarrow> element \<Rightarrow> bool" where
  "matches (ByTag t) e = (tagName e = t)"
| "matches (ByTagId t i) e = (tagName e = t \<and> getAttribute e ''id'' = Some i)"
| "matches (ByTagClass t c) e = (tagName e = t \<and> c \<in> set (classList e))"

definition querySelectorAll :: "selector \<Rightarrow> document \<Rightarrow> element list" where
  "querySelectorAll sel d = filter (matches sel) (all_elements d)"

definition querySelector :: "selector \<Rightarrow> document \<Rightarrow> element option" where
  "querySelector sel d = find (matches sel) (all_elements d)"

text \<open>Changing the first element of a list that satisfies a predicate, in place.\<close>

fun update_first :: "('a \<Rightarrow> bool) \<Rightarrow> ('a \<Rightarrow> 'a) \<Rightarrow> 'a list \<Rightarrow> 'a list" where
  "update_first P f [] = []"
| "update_first P f (x # xs) = (if P x then f x # xs else x # update_first P f xs)"

definition update_first_element :: "selector \<Rightarrow> (element \<Rightarrow> element) \<Rightarrow> document \<Rightarrow> document" where
  "update_first_element sel f d =
     (if list_ex (matches sel) (headContent d)
      then d\<lparr>headContent := update_first (matches sel) f (headContent d)\<rparr>
      else d\<lparr>bodyContent := update_first (matches sel) f (bodyContent d)\<rparr>)"

definition appendChild_head :: "element \<Rightarrow> document \<Rightarrow> document" where
  "appendChild_head e d = d\<lparr>headContent := headContent d @ [e]\<rparr>"

subsection \<open>JSON values and \<^verbatim>\<open>JSON.stringify(value, null, 4)\<close>\<close>

datatype json =
    JUndefined
  | JNull
  | JStr string
  | JArr "json list"
  | JObj "(string \<times> json) list"

definition hex_digit :: "nat \<Rightarrow> char" where
  "hex_digit n = ''0123456789abcdef'' ! (n mod 16)"

definition quote_char :: "char \<Rightarrow> string" where
  "quote_char c =
     (if c = CHR 0x08 then [CHR 0x5C, CHR ''b'']
      else if c = CHR 0x09 then [CHR 0x5C, CHR ''t'']
      else if c = CHR 0x0A then [CHR 0x5C, CHR ''n'']
      else if c = CHR 0x0C then [CHR 0x5C, CHR ''f'']
      else if c = CHR 0x0D then [CHR 0x5C, CHR ''r'']
      else if c = CHR 0x22 then [CHR 0x5C, CHR 0x22]
      else if c = CHR 0x5C then [CHR 0x5C, CHR 0x5C]
      else if (of_char c :: nat) < 32
        then [CHR 0x5C, CHR ''u'', CHR ''0'', CHR ''0'',
              hex_digit (of_char c div 16), hex_digit (of_char c)]
      else [c])"

definition quote_string :: "string \<Rightarrow> string" where
  "quote_string s = [CHR 0x22] @ concat (map quote_char s) @ [CHR 0x22]"

fun join :: "string \<Rightarrow> string list \<Rightarrow> string" where
  "join sep [] = []"
| "join sep [x] = x"
| "join sep (x # y # ys) = x @ sep @ join sep (y # ys)"

definition gap :: string where
  "gap = ''    ''"

text \<open>
  The serialisation of a property value under the current indentation;
  \<^const>\<open>None\<close> is \<^verbatim>\<open>undefined\<close>: such a property is left out of an object and
  printed as \<^verbatim>\<open>null\<close> in an array.
\<close>

fun serialize :: "string \<Rightarrow> json \<Rightarrow> string option" where
  "serialize indent JUndefined = None"
| "serialize indent JNull = Some ''null''"
| "serialize indent (JStr s) = Some (quote_string s)"
| "serialize indent (JArr xs) =
     (let stepback = indent;
          indent = indent @ gap;
          partial = map (\<lambda>x. case serialize indent x of None \<Rightarrow> ''null'' | Some t \<Rightarrow> t) xs
      in Some (if partial = [] then ''[]''
               else ''['' @ [CHR 0x0A] @ indent @ join ('','' @ [CHR 0x0A] @ indent) partial
                    @ [CHR 0x0A] @ stepback @ '']''))"
| "serialize indent (JObj ps) =
     (let stepback = indent;
          indent = indent @ gap;
          partial = concat (map (\<lambda>p. case serialize indent (snd p) of
                                          None \<Rightarrow> []
                                        | Some t \<Rightarrow> [quote_string (fst p) @ '': '' @ t]) ps)
      in Some (if partial = [] then ''{}''
               else ''{'' @ [CHR 0x0A] @ indent @ join ('','' @ [CHR 0x0A] @ indent) partial
                    @ [CHR 0x0A] @ stepback @ ''}''))"

definition stringify :: "json \<Rightarrow> string" where
  "stringify v = (case serialize [] v of None \<Rightarrow> ''undefined'' | Some t \<Rightarrow> t)"

subsection \<open>The configuration\<close>

text \<open>
  The ReSpec configuration, as far as the program reads it: a short name, a status, and
  three optional lists of persons. An optional property that is missing is
  \<^const>\<open>None\<close>.
\<close>

record person =
  name :: string
  url :: "string option"
  company :: "string option"
  companyURL :: "string option"

record config =
  shortName :: string
  specStatus :: string
  editors :: "person list option"
  authors :: "person list option"
  creators :: "person list option"

text \<open>\<^verbatim>\<open>config[key]\<close> for the keys of \<^verbatim>\<open>person_keys_mapping\<close>.\<close>

definition config_get :: "config \<Rightarrow> string \<Rightarrow> person list option" where
  "config_get c key =
     (if key = ''editors'' then editors c
      else if key = ''authors'' then authors c
      else if key = ''creators'' then creators c
      else None)"

definition person_keys_mapping :: "(string \<times> string) list" where
  "person_keys_mapping =
     [(''editors'', ''editor''), (''authors'', ''author''), (''creators'', ''creator'')]"

definition MANIFEST_ID :: string where
  "MANIFEST_ID = ''pub_manifest''"

subsection \<open>The manifest\<close>

text \<open>
  The local variable \<^verbatim>\<open>manifest\<close>. The object literal of lines 71 to 106 has six
  keys; five of them are never written again and are constants of \<open>to_json\<close> below.
  The record keeps what the program changes: the array \<^verbatim>\<open>manifest.resources\<close>, and
  the properties the program adds after the literal, in the order of their creation
  (\<^verbatim>\<open>id\<close>, \<^verbatim>\<open>url\<close>, \<^verbatim>\<open>datePublished\<close>, the person lists, and the
  \<^verbatim>\<open>encodingFormat\<close> written at line 296).
\<close>

record manifest =
  resources :: "linked_resource list"
  props :: "(string \<times> json) list"

definition initial_manifest :: manifest where
  "initial_manifest =
     \<lparr>resources =
        [[(''type'', ''LinkedResource''),
          (''url'', ''https://www.w3.org/StyleSheets/TR/2016/logos/W3C''),
          (''encodingFormat'', ''image/svg+xml''),
          (''description'', ''W3C Logo'')],
         [(''type'', ''LinkedResource''),
          (''url'', ''https://www.w3.org/StyleSheets/TR/2016/base.css''),
          (''rel'', ''stylesheet''),
          (''encodingFormat'', ''text/css''),
          (''description'', ''Generic CSS file for W3C TR documents'')]],
      props = []\<rparr>"

definition links :: "linked_resource list" where
  "links =
     [[(''type'', ''LinkedResource''),
       (''url'', ''https://www.w3.org/Consortium/Legal/privacy-statement-20140324''),
       (''encodingFormat'', ''text/html''),
       (''rel'', ''privacy-policy'')],
      [(''type'', ''LinkedResource''),
       (''url'', ''https://www.w3.org/Consortium/Legal/2015/copyright-software-and-document''),
       (''encodingFormat'', ''text/html''),
       (''rel'', ''license describedby'')],
      [(''type'', ''LinkedResource''),
       (''url'', ''http://www.w3.org/Consortium/Legal/ipr-notice#Copyright''),
       (''encodingFormat'', ''text/html''),
       (''rel'', ''copyright'')]]"

definition resource_json :: "linked_resource \<Rightarrow> json" where
  "resource_json r = JObj (map (\<lambda>p. (fst p, JStr (snd p))) r)"

definition to_json :: "manifest \<Rightarrow> json" where
  "to_json m =
     JObj ([(''@context'', JArr [JStr ''https://schema.org'', JStr ''https://www.w3.org/ns/pub-context'']),
            (''type'', JStr ''TechArticle''),
            (''accessMode'', JArr [JStr ''textual'', JStr ''diagramOnVisual'']),
            (''accessModeSufficient'', JArr [JStr ''textual'']),
            (''resources'', JArr (map resource_json (resources m))),
            (''links'', JArr (map resource_json links))]
           @ props m)"

definition push :: "linked_resource \<Rightarrow> manifest \<Rightarrow> manifest" where
  "push r m = m\<lparr>resources := resources m @ [r]\<rparr>"

definition set_manifest_prop :: "string \<Rightarrow> json \<Rightarrow> manifest \<Rightarrow> manifest" where
  "set_manifest_prop k v m = m\<lparr>props := set_prop k v (props m)\<rparr>"

text \<open>The value of \<^verbatim>\<open>getAttribute\<close> as a property value: a string or \<^verbatim>\<open>null\<close>.\<close>

definition attr_json :: "string option \<Rightarrow> json" where
  "attr_json a = (case a of None \<Rightarrow> JNull | Some s \<Rightarrow> JStr s)"

text \<open>The value of an optional property of a person: a string or \<^verbatim>\<open>undefined\<close>.\<close>

definition opt_json :: "string option \<Rightarrow> json" where
  "opt_json a = (case a of None \<Rightarrow> JUndefined | Some s \<Rightarrow> JStr s)"

subsection \<open>Persons (lines 121 to 137)\<close>

text \<open>
  The callback assigns to \<^verbatim>\<open>retval\<close> without declaring it, so the variable is a
  property of the global object, and it survives the call. The global is threaded
  through: \<^const>\<open>None\<close> is the variable not yet created.
\<close>

definition person_callback :: "person \<Rightarrow> json option \<Rightarrow> json \<times> json option" where
  "person_callback person g =
     (let retval = [(''type'', JStr ''Person'')];
          retval = set_prop ''name'' (JStr (name person)) retval;
          retval = (case url person of None \<Rightarrow> retval
                    | Some u \<Rightarrow> set_prop ''id'' (JStr u) retval);
          affiliation = [(''type'', JStr ''Organization''), (''name'', opt_json (company person))];
          retval = set_prop ''affiliation'' (JObj affiliation) retval;
          retval = (case companyURL person of None \<Rightarrow> retval
                    | Some cu \<Rightarrow>
                        set_prop ''affiliation'' (JObj (set_prop ''url'' (JStr cu) affiliation)) retval)
      in (JObj retval, Some (JObj retval)))"

fun map_persons :: "person list \<Rightarrow> json option \<Rightarrow> json list \<times> json option" where
  "map_persons [] g = ([], g)"
| "map_persons (p # ps) g =
     (let (x, g1) = person_callback p g;
          (xs, g2) = map_persons ps g1
      in (x # xs, g2))"

definition add_person_key ::
  "config \<Rightarrow> string \<times> string \<Rightarrow> manifest \<times> json option \<Rightarrow> manifest \<times> json option" where
  "add_person_key c kt mg =
     (case config_get c (fst kt) of
        None \<Rightarrow> mg
      | Some ps \<Rightarrow>
          (let (arr, g1) = map_persons ps (snd mg)
           in (set_manifest_prop (snd kt) (JArr arr) (fst mg), g1)))"

definition add_persons :: "config \<Rightarrow> manifest \<times> json option \<Rightarrow> manifest \<times> json option" where
  "add_persons c mg = fold (add_person_key c) person_keys_mapping mg"

subsection \<open>The resources that depend on the status (lines 139 to 209)\<close>

record status_vars =
  styleFile :: "string option"
  logoFile :: "string option"
  logoFormat :: string
  watermark :: "string option"

definition status_switch :: "string \<Rightarrow> status_vars" where
  "status_switch status =
     (let v = \<lparr>styleFile = Some ''W3C-'', logoFile = None,
                logoFormat = ''image/svg+xml'', watermark = None\<rparr>;
          s = toUpperCase status
      in if s \<in> set [''CG-DRAFT'', ''CG-FINAL'', ''BG-DRAFT'', ''BG-FINAL'']
           then v\<lparr>styleFile := Some (toLowerCase status),
                  logoFile := Some (''back-'' @ toLowerCase status @ ''.png''),
                  logoFormat := ''image/png''\<rparr>
         else if s \<in> set [''FPWD'', ''LC'', ''WD-NOTE'', ''LC-NOTE'']
           then v\<lparr>styleFile := Some (''W3C-'' @ ''WD''), logoFile := Some ''WD''\<rparr>
         else if s \<in> set [''WG-NOTE'', ''FPWD-NOTE'']
           then v\<lparr>styleFile := Some (''W3C-'' @ ''WG-NOTE''), logoFile := Some ''WG-Note''\<rparr>
         else if s = ''UNOFFICIAL''
           then v\<lparr>styleFile := Some (''W3C-'' @ ''UD''), logoFile := Some ''UD.png'',
                  logoFormat := ''image/png'', watermark := Some ''UD-watermark.png''\<rparr>
         else if s \<in> set [''FINDING'', ''FINDING-DRAFT'', ''BASE'']
           then v\<lparr>styleFile := None\<rparr>
         else v\<lparr>styleFile := Some (''W3C-'' @ toUpperCase status),
                logoFile := Some (toUpperCase status)\<rparr>)"

definition status_resources :: "config \<Rightarrow> manifest \<Rightarrow> manifest" where
  "status_resources c manifest =
     (let v = status_switch (specStatus c);
          manifest = (case styleFile v of None \<Rightarrow> manifest
             | Some sf \<Rightarrow> push
                 [(''type'', ''LinkedResource''),
                  (''url'', ''https://www.w3.org/StyleSheets/TR/2016/'' @ sf),
                  (''rel'', ''stylesheet''),
                  (''encodingFormat'', ''text/css''),
                  (''description'', ''CSS file depending on the status of the document'')]
                 manifest);
          manifest = (case logoFile v of None \<Rightarrow> manifest
             | Some lf \<Rightarrow> push
                 [(''type'', ''LinkedResource''),
                  (''url'', ''https://www.w3.org/StyleSheets/TR/2016/logos/'' @ lf),
                  (''encodingFormat'', logoFormat v),
                  (''description'', ''Sidebar logo reflecting the status of the document'')]
                 manifest);
          manifest = (case watermark v of None \<Rightarrow> manifest
             | Some w \<Rightarrow> push
                 [(''type'', ''LinkedResource''),
                  (''url'', ''https://www.w3.org/StyleSheets/TR/2016/logos/'' @ w),
                  (''encodingFormat'', ''image/png''),
                  (''description'', ''Background watermark reflecting the status of the document'')]
                 manifest)
      in manifest)"

text \<open>The ORCID logo (lines 211 to 219).\<close>

definition orcid_resource :: "document \<Rightarrow> manifest \<Rightarrow> manifest" where
  "orcid_resource d manifest =
     (case querySelector (ByTagClass ''span'' ''orcid'') d of
        None \<Rightarrow> manifest
      | Some _ \<Rightarrow> push
          [(''type'', ''LinkedResource''),
           (''url'', ''images/orcid.gif''),
           (''encodingFormat'', ''image/gif''),
           (''description'', ''ORCID logo'')]
          manifest)"

subsection \<open>The scan of the document (lines 229 to 302)\<close>

text \<open>\<^verbatim>\<open>a || b\<close> on two values that are a string or \<^verbatim>\<open>null\<close>.\<close>

definition or_else :: "string option \<Rightarrow> string option \<Rightarrow> string option" where
  "or_else a b = (if truthy a then a else b)"

text \<open>\<^verbatim>\<open>if( v ) { retval.k = v }\<close>\<close>

definition set_if_truthy :: "string \<Rightarrow> string option \<Rightarrow> linked_resource \<Rightarrow> linked_resource" where
  "set_if_truthy k v retval =
     (case v of None \<Rightarrow> retval | Some t \<Rightarrow> if t = [] then retval else set_prop k t retval)"

text \<open>
  The four callbacks. Each one is a closure over \<^verbatim>\<open>is_relative\<close> and over the
  manifest; the classifier is passed as the argument \<open>rel\<close> and the manifest is passed
  and returned. \<^verbatim>\<open>href && is_relative(href)\<close> evaluates its right side only when
  \<^verbatim>\<open>href\<close> is a string that is not empty.
\<close>

definition scan_object :: "(string \<Rightarrow> bool) \<Rightarrow> element \<Rightarrow> manifest \<Rightarrow> manifest" where
  "scan_object rel element manifest =
     (case getAttribute element ''data'' of
        None \<Rightarrow> manifest
      | Some href \<Rightarrow>
          if href \<noteq> [] \<and> rel href then
            (let retval = [(''type'', ''LinkedResource''), (''url'', href)];
                 type = or_else (getAttribute element ''type'') (image_type href);
                 retval = set_if_truthy ''encodingFormat'' type retval
             in push retval manifest)
          else manifest)"

definition scan_img :: "(string \<Rightarrow> bool) \<Rightarrow> element \<Rightarrow> manifest \<Rightarrow> manifest" where
  "scan_img rel element manifest =
     (case getAttribute element ''src'' of
        None \<Rightarrow> manifest
      | Some href \<Rightarrow>
          if href \<noteq> [] \<and> rel href then
            (let retval = [(''type'', ''LinkedResource''), (''url'', href)];
                 type = image_type href;
                 retval = set_if_truthy ''encodingFormat'' type retval;
                 alt = getAttribute element ''alt'';
                 retval = set_if_truthy ''description'' alt retval
             in push retval manifest)
          else manifest)"

definition scan_a :: "(string \<Rightarrow> bool) \<Rightarrow> element \<Rightarrow> manifest \<Rightarrow> manifest" where
  "scan_a rel element manifest =
     (case getAttribute element ''href'' of
        None \<Rightarrow> manifest
      | Some href \<Rightarrow>
          if href \<noteq> [] \<and> rel href then
            (let retval = [(''type'', ''LinkedResource''), (''url'', href)];
                 type = or_else (getAttribute element ''type'') (image_type href);
                 retval = set_if_truthy ''encodingFormat'' type retval;
                 rel_attr = getAttribute element ''rel'';
                 retval = set_if_truthy ''rel'' rel_attr retval;
                 descr = getAttribute element ''title'';
                 retval = set_if_truthy ''description'' descr retval
             in push retval manifest)
          else manifest)"

definition scan_script :: "(string \<Rightarrow> bool) \<Rightarrow> element \<Rightarrow> manifest \<Rightarrow> manifest" where
  "scan_script rel element manifest =
     (if getAttribute element ''class'' \<noteq> Some ''remove'' then
        (case getAttribute element ''src'' of
           None \<Rightarrow> manifest
         | Some href \<Rightarrow>
             if href \<noteq> [] \<and> rel href then
               (let retval = [(''type'', ''LinkedResource''), (''url'', href)]
                in if endsWith href ''.js''
                   then push (set_prop ''encodingFormat'' ''application/Javascript'' retval) manifest
                   else
                     (let type = getAttribute element ''type'';
                          manifest = (case type of None \<Rightarrow> manifest
                             | Some t \<Rightarrow> if t = [] then manifest
                                         else set_manifest_prop ''encodingFormat'' (JStr t) manifest)
                      in push retval manifest))
             else manifest)
      else manifest)"

definition scan_document :: "(string \<Rightarrow> bool) \<Rightarrow> document \<Rightarrow> manifest \<Rightarrow> manifest" where
  "scan_document rel d manifest =
     (let manifest = fold (scan_object rel) (querySelectorAll (ByTag ''object'') d) manifest;
          manifest = fold (scan_img rel) (querySelectorAll (ByTag ''img'') d) manifest;
          manifest = fold (scan_a rel) (querySelectorAll (ByTag ''a'') d) manifest;
          manifest = fold (scan_script rel) (querySelectorAll (ByTag ''script'') d) manifest
      in manifest)"

subsection \<open>The whole function\<close>

datatype error = TypeError

text \<open>
  Lines 71 to 302: the manifest before the duplicates are removed. The two required
  elements are looked up with \<^verbatim>\<open>querySelector\<close>, whose \<^verbatim>\<open>null\<close> has no
  \<^verbatim>\<open>getAttribute\<close>.
\<close>

definition accumulate :: "config \<Rightarrow> document \<Rightarrow> json option \<Rightarrow> error + manifest \<times> json option" where
  "accumulate c d g =
     (let manifest = initial_manifest;
          manifest = set_manifest_prop ''id''
                       (JStr (''https://www.w3.org/TR/'' @ shortName c @ ''/'')) manifest
      in case querySelector (ByTagClass ''a'' ''u-url'') d of
           None \<Rightarrow> Inl TypeError
         | Some u \<Rightarrow>
             (let manifest = set_manifest_prop ''url'' (attr_json (getAttribute u ''href'')) manifest
              in case querySelector (ByTagClass ''time'' ''dt-published'') d of
                   None \<Rightarrow> Inl TypeError
                 | Some t \<Rightarrow>
                     (let manifest = set_manifest_prop ''datePublished''
                                       (attr_json (getAttribute t ''datetime'')) manifest;
                          (manifest, g1) = add_persons c (manifest, g);
                          manifest = status_resources c manifest;
                          manifest = orcid_resource d manifest;
                          manifest = scan_document is_relative d manifest
                      in Inr (manifest, g1))))"

text \<open>Line 304.\<close>

definition build_manifest :: "config \<Rightarrow> document \<Rightarrow> json option \<Rightarrow> error + manifest \<times> json option" where
  "build_manifest c d g =
     (case accumulate c d g of
        Inl e \<Rightarrow> Inl e
      | Inr (manifest, g1) \<Rightarrow> Inr (manifest\<lparr>resources := uniq (resources manifest)\<rparr>, g1))"

text \<open>Lines 63 to 66.\<close>

definition mark_toc :: "document \<Rightarrow> document" where
  "mark_toc d = update_first_element (ByTagId ''nav'' ''toc'') (setAttribute ''role'' ''doc-toc'') d"

text \<open>Lines 309 to 322.\<close>

definition inject_manifest :: "manifest \<Rightarrow> document \<Rightarrow> document" where
  "inject_manifest manifest d =
     (let link = createElement ''link'';
          link = setAttribute ''rel'' ''publication'' link;
          link = setAttribute ''href'' (''#'' @ MANIFEST_ID) link;
          d = appendChild_head link d;
          manifest_element = createElement ''script'';
          manifest_element = setAttribute ''type'' ''application/ld+json'' manifest_element;
          manifest_element = setAttribute ''id'' MANIFEST_ID manifest_element;
          manifest_element = manifest_element\<lparr>textContent := stringify (to_json manifest)\<rparr>;
          d = appendChild_head manifest_element d
      in d)"

text \<open>
  The state the function works on: the document, and the global variable
  \<^verbatim>\<open>retval\<close>. An exception leaves the changes made before it.
\<close>

record state =
  doc :: document
  retval :: "json option"

definition create_manifest :: "config \<Rightarrow> state \<Rightarrow> (error + unit) \<times> state" where
  "create_manifest c s =
     (let d = mark_toc (doc s)
      in case build_manifest c d (retval s) of
           Inl e \<Rightarrow> (Inl e, s\<lparr>doc := d\<rparr>)
         | Inr (manifest, g) \<Rightarrow> (Inr (), \<lparr>doc = inject_manifest manifest d, retval = g\<rparr>))"

subsection \<open>A small document and configuration\<close>

text \<open>
  A document with the two required elements and the same picture twice, under two
  alternative texts; a configuration with a status that adds no resource.
\<close>

definition example_u_url :: element where
  "example_u_url =
     \<lparr>tagName = ''a'',
      attributes = [(''class'', ''u-url''), (''href'', ''https://www.w3.org/TR/x/'')],
      textContent = []\<rparr>"

definition example_time :: element where
  "example_time =
     \<lparr>tagName = ''time'',
      attributes = [(''class'', ''dt-published''), (''datetime'', ''2020-01-01'')],
      textContent = []\<rparr>"

definition example_img :: element where
  "example_img =
     \<lparr>tagName = ''img'', attributes = [(''src'', ''pic.png''), (''alt'', ''cap'')],
      textContent = []\<rparr>"

definition example_img_again :: element where
  "example_img_again =
     \<lparr>tagName = ''img'', attributes = [(''src'', ''pic.png''), (''alt'', ''other'')],
      textContent = []\<rparr>"

definition example_document :: document where
  "example_document =
     \<lparr>headContent = [],
      bodyContent = [example_u_url, example_time, example_img, example_img_again]\<rparr>"

definition example_config :: config where
  "example_config =
     \<lparr>shortName = ''x'', specStatus = ''base'',
      editors = None, authors = None, creators = None\<rparr>"

definition example_pic :: linked_resource where
  "example_pic =
     [(''type'', ''LinkedResource''), (''url'', ''pic.png''),
      (''encodingFormat'', ''image/png''), (''description'', ''cap'')]"

definition example_props :: "(string \<times> json) list" where
  "example_props =
     [(''id'', JStr ''https://www.w3.org/TR/x/''),
      (''url'', JStr ''https://www.w3.org/TR/x/''),
      (''datePublished'', JStr ''2020-01-01'')]"

text \<open>
  A link and a script that refer to \<^verbatim>\<open>ch1.html\<close>, links that are not relative, a
  link with an empty reference, and a module script.
\<close>

definition example_link :: element where
  "example_link =
     \<lparr>tagName = ''a'', attributes = [(''href'', ''ch1.html'')], textContent = []\<rparr>"

definition example_script :: element where
  "example_script =
     \<lparr>tagName = ''script'', attributes = [(''src'', ''ch1.html'')], textContent = []\<rparr>"

definition example_fragment_link :: element where
  "example_fragment_link =
     \<lparr>tagName = ''a'', attributes = [(''href'', ''#frag'')], textContent = []\<rparr>"

definition example_absolute_link :: element where
  "example_absolute_link =
     \<lparr>tagName = ''a'', attributes = [(''href'', ''https://example.com/x'')], textContent = []\<rparr>"

definition example_empty_link :: element where
  "example_empty_link =
     \<lparr>tagName = ''a'', attributes = [(''href'', [])], textContent = []\<rparr>"

definition example_module_script :: element where
  "example_module_script =
     \<lparr>tagName = ''script'', attributes = [(''src'', ''lib.mjs''), (''type'', ''module'')],
      textContent = []\<rparr>"

text \<open>An image with a type attribute, and a link whose type attribute is empty.\<close>

definition example_typed_img :: element where
  "example_typed_img =
     \<lparr>tagName = ''img'', attributes = [(''src'', ''pic.png''), (''type'', ''image/webp'')],
      textContent = []\<rparr>"

definition example_empty_type_link :: element where
  "example_empty_type_link =
     \<lparr>tagName = ''a'', attributes = [(''href'', ''paper.pdf''), (''type'', [])],
      textContent = []\<rparr>"

definition example_typed_link :: element where
  "example_typed_link =
     \<lparr>tagName = ''a'', attributes = [(''href'', ''paper.pdf''), (''type'', ''text/plain'')],
      textContent = []\<rparr>"

text \<open>The table of file extensions, as the specification lists it.\<close>

definition sniff_table :: "(string \<times> string) list" where
  "sniff_table =
     [(''.gif'', ''image/gif''), (''.png'', ''image/png''), (''.bmp'', ''image/bmp''),
      (''.jpg'', ''image/jpeg''), (''.jpeg'', ''image/jpeg''), (''.svg'', ''image/svg+xml''),
      (''.pdf'', ''application/pdf'')]"


text \<open>
  The Person entry of a person record, as the specification words it: the type, the
  name, an id when the person has a url, and the affiliation, an Organization with the
  company as its name and with a url when the person has a company url.
\<close>

definition person_entry :: "person \<Rightarrow> json" where
  "person_entry p =
     JObj ([(''type'', JStr ''Person''), (''name'', JStr (name p))]
           @ (case url p of None \<Rightarrow> [] | Some u \<Rightarrow> [(''id'', JStr u)])
           @ [(''affiliation'',
               JObj ([(''type'', JStr ''Organization''), (''name'', opt_json (company p))]
                     @ (case companyURL p of None \<Rightarrow> [] | Some cu \<Rightarrow> [(''url'', JStr cu)])))])"

text \<open>\<^verbatim>\<open>manifest[k]\<close> on the finished manifest; \<^const>\<open>None\<close> when there is no such key.\<close>

definition manifest_field :: "manifest \<Rightarrow> string \<Rightarrow> json option" where
  "manifest_field m k = (case to_json m of JObj ps \<Rightarrow> map_of ps k | _ \<Rightarrow> None)"

text \<open>
  The text of the element that carries the manifest: the last child of the head, when
  its id is the one of the manifest.
\<close>

definition manifest_content :: "document \<Rightarrow> string option" where
  "manifest_content d =
     (case rev (headContent d) of
        [] \<Rightarrow> None
      | e # _ \<Rightarrow> if getAttribute e ''id'' = Some MANIFEST_ID then Some (textContent e) else None)"

definition example_editor :: person where
  "example_editor = \<lparr>name = ''A'', url = None, company = Some ''C'', companyURL = None\<rparr>"

definition example_editors_config :: config where
  "example_editors_config = example_config\<lparr>editors := Some [example_editor]\<rparr>"

text \<open>What the three person keys add to the manifest, without the global variable.\<close>

definition with_persons :: "config \<Rightarrow> manifest \<Rightarrow> manifest" where
  "with_persons c m =
     (let m = (case editors c of None \<Rightarrow> m
               | Some ps \<Rightarrow> set_manifest_prop ''editor'' (JArr (map person_entry ps)) m);
          m = (case authors c of None \<Rightarrow> m
               | Some ps \<Rightarrow> set_manifest_prop ''author'' (JArr (map person_entry ps)) m);
          m = (case creators c of None \<Rightarrow> m
               | Some ps \<Rightarrow> set_manifest_prop ''creator'' (JArr (map person_entry ps)) m)
      in m)"

text \<open>What a step adds to \<^verbatim>\<open>manifest.resources\<close>.\<close>

definition produced :: "manifest \<Rightarrow> manifest \<Rightarrow> linked_resource list" where
  "produced before after = drop (length (resources before)) (resources after)"

text \<open>
  What a callback pushes for an element, and the references the scan reads, in the order
  of the scan: the \<^verbatim>\<open>data\<close> of every object, the \<^verbatim>\<open>src\<close> of every image, the
  \<^verbatim>\<open>href\<close> of every link, and the \<^verbatim>\<open>src\<close> of every script whose class is not
  \<^verbatim>\<open>remove\<close>.
\<close>

definition callback_resources ::
  "(element \<Rightarrow> manifest \<Rightarrow> manifest) \<Rightarrow> element \<Rightarrow> linked_resource list" where
  "callback_resources f e = produced initial_manifest (f e initial_manifest)"

definition attribute_values :: "string \<Rightarrow> element list \<Rightarrow> string list" where
  "attribute_values a es =
     concat (map (\<lambda>e. case getAttribute e a of None \<Rightarrow> [] | Some v \<Rightarrow> [v]) es)"

definition scanned_references :: "document \<Rightarrow> string list" where
  "scanned_references d =
     attribute_values ''data'' (querySelectorAll (ByTag ''object'') d)
     @ attribute_values ''src'' (querySelectorAll (ByTag ''img'') d)
     @ attribute_values ''href'' (querySelectorAll (ByTag ''a'') d)
     @ attribute_values ''src''
         (filter (\<lambda>e. getAttribute e ''class'' \<noteq> Some ''remove'')
            (querySelectorAll (ByTag ''script'') d))"

text \<open>A script marked for removal, and a document of links and scripts.\<close>

definition example_removed_script :: element where
  "example_removed_script =
     \<lparr>tagName = ''script'', attributes = [(''class'', ''remove''), (''src'', ''respec.js'')],
      textContent = []\<rparr>"

definition example_scan_document :: document where
  "example_scan_document =
     \<lparr>headContent = [example_removed_script, example_module_script],
      bodyContent = [example_fragment_link, example_link, example_empty_link,
                     example_absolute_link]\<rparr>"

section \<open>Properties\<close>

subsection \<open>Removal of duplicates\<close>

lemma uniq_filter_urls:
  "entry_url ` set (uniq_filter buffer arr) = entry_url ` set arr - set buffer"
  by (induction arr arbitrary: buffer) (auto simp: Let_def)

lemma uniq_filter_distinct: "distinct (map entry_url (uniq_filter buffer arr))"
proof (induction arr arbitrary: buffer)
  case Nil
  show ?case by simp
next
  case (Cons entry arr)
  have "entry_url entry \<notin> entry_url ` set (uniq_filter (buffer @ [entry_url entry]) arr)"
    by (simp add: uniq_filter_urls)
  with Cons show ?case by (simp add: Let_def)
qed

lemma uniq_filter_subseq: "subseq (uniq_filter buffer arr) arr"
  by (induction arr arbitrary: buffer) (auto simp: Let_def)

lemma uniq_filter_find:
  "u \<notin> set buffer \<Longrightarrow>
   find (\<lambda>e. entry_url e = u) (uniq_filter buffer arr) = find (\<lambda>e. entry_url e = u) arr"
  by (induction arr arbitrary: buffer) (auto simp: Let_def)

lemma build_manifest_Inr:
  "build_manifest c d g = Inr (m, g') \<Longrightarrow>
   \<exists>acc. accumulate c d g = Inr (acc, g') \<and> m = acc\<lparr>resources := uniq (resources acc)\<rparr>"
  by (auto simp: build_manifest_def split: sum.splits)

text \<open>
  C1. Whenever the manifest is built, no two entries of its resources have the same
  url. The list is what \<^verbatim>\<open>uniq\<close> makes of the accumulated list: a subsequence of
  it (the survivors keep their order), in which the entry found under any url is the
  first entry of the accumulated list with that url, unchanged.
\<close>

theorem resources_deduplicated:
  assumes "build_manifest c d g = Inr (m, g')"
  shows "distinct (map entry_url (resources m)) \<and>
         (\<exists>acc. accumulate c d g = Inr (acc, g') \<and>
            resources m = uniq (resources acc) \<and>
            subseq (resources m) (resources acc) \<and>
            (\<forall>u. find (\<lambda>e. entry_url e = u) (resources m)
                 = find (\<lambda>e. entry_url e = u) (resources acc)))"
proof -
  from assms obtain acc where acc: "accumulate c d g = Inr (acc, g')"
    and m: "m = acc\<lparr>resources := uniq (resources acc)\<rparr>"
    using build_manifest_Inr by blast
  have r: "resources m = uniq (resources acc)" using m by simp
  have "distinct (map entry_url (resources m))"
    by (simp add: r uniq_def uniq_filter_distinct)
  moreover have "subseq (resources m) (resources acc)"
    by (simp add: r uniq_def uniq_filter_subseq)
  moreover have "\<forall>u. find (\<lambda>e. entry_url e = u) (resources m)
                 = find (\<lambda>e. entry_url e = u) (resources acc)"
    by (simp add: r uniq_def uniq_filter_find)
  ultimately show ?thesis using acc r by blast
qed

theorem resources_deduplicated_witness:
  "build_manifest example_config example_document None =
     Inr (\<lparr>resources = resources initial_manifest @ [example_pic], props = example_props\<rparr>, None)
   \<and> distinct (map entry_url (resources initial_manifest @ [example_pic]))
   \<and> find (\<lambda>e. entry_url e = Some ''pic.png'') (resources initial_manifest @ [example_pic])
       = Some example_pic"
proof -
  have h: "build_manifest example_config example_document None =
     Inr (\<lparr>resources = resources initial_manifest @ [example_pic], props = example_props\<rparr>, None)"
    by code_simp
  have f: "find (\<lambda>e. entry_url e = Some ''pic.png'') (resources initial_manifest @ [example_pic])
       = Some example_pic"
    by code_simp
  from resources_deduplicated [OF h] h f show ?thesis by simp
qed

subsection \<open>Strings and objects\<close>

lemma startsWith_prefix: "startsWith s p \<longleftrightarrow> prefix p s"
  unfolding startsWith_def prefix_def
  by (metis append_eq_conv_conj append_take_drop_id)

lemma endsWith_suffix: "endsWith s p \<longleftrightarrow> suffix p s"
proof
  assume "endsWith s p"
  then have "s = take (length s - length p) s @ p"
    by (metis append_take_drop_id endsWith_def)
  then show "suffix p s" unfolding suffix_def by blast
next
  assume "suffix p s"
  then obtain zs where "s = zs @ p" unfolding suffix_def by blast
  then show "endsWith s p" by (simp add: endsWith_def)
qed

lemma map_of_set_prop:
  "map_of (set_prop k v obj) k' = (if k' = k then Some v else map_of obj k')"
  by (simp add: set_prop_def update_conv')

lemma map_of_set_if_truthy:
  "map_of (set_if_truthy k v obj) k' = (if k' = k \<and> truthy v then v else map_of obj k')"
  by (cases v) (auto simp: set_if_truthy_def map_of_set_prop)

lemma produced_same [simp]: "produced m m = []"
  by (simp add: produced_def)

lemma produced_push [simp]: "produced m (push r m) = [r]"
  by (simp add: produced_def push_def)

lemma produced_push_props [simp]: "produced m (push r (set_manifest_prop k v m)) = [r]"
  by (simp add: produced_def push_def set_manifest_prop_def)

subsection \<open>The callbacks of the scan\<close>

lemma is_relative_iff:
  "\<not> is_relative u \<longleftrightarrow>
     (\<exists>cs. u = CHR ''#'' # cs) \<or> prefix ''http://'' u \<or> prefix ''https://'' u \<or> prefix ''mailto:'' u"
  by (cases u) (simp_all add: is_relative_def startsWith_prefix)

lemma image_type_truthy: "image_type h \<noteq> None \<Longrightarrow> truthy (image_type h)"
  by (simp add: image_type_def split: if_splits)

lemma image_type_falsy: "\<not> truthy (image_type h) \<Longrightarrow> image_type h = None"
  using image_type_truthy [of h] by blast

lemma or_else_image_type_falsy:
  "\<not> truthy (or_else a (image_type h)) \<Longrightarrow> or_else a (image_type h) = None"
  using image_type_falsy [of h] by (simp add: or_else_def split: if_splits)

lemma scan_object_skip:
  "getAttribute e ''data'' = None \<or> getAttribute e ''data'' = Some [] \<Longrightarrow> scan_object rel e m = m"
  by (auto simp: scan_object_def)

lemma scan_img_skip:
  "getAttribute e ''src'' = None \<or> getAttribute e ''src'' = Some [] \<Longrightarrow> scan_img rel e m = m"
  by (auto simp: scan_img_def)

lemma scan_a_skip:
  "getAttribute e ''href'' = None \<or> getAttribute e ''href'' = Some [] \<Longrightarrow> scan_a rel e m = m"
  by (auto simp: scan_a_def)

lemma scan_script_skip:
  "getAttribute e ''src'' = None \<or> getAttribute e ''src'' = Some [] \<Longrightarrow> scan_script rel e m = m"
  by (auto simp: scan_script_def)

lemma scan_object_rel:
  assumes "getAttribute e ''data'' = Some href" "href \<noteq> []" "rel href"
  shows "\<exists>r. scan_object rel e m = push r m \<and> entry_url r = Some href \<and>
             map_of r ''encodingFormat'' = or_else (getAttribute e ''type'') (image_type href)"
proof (intro exI conjI)
  show "scan_object rel e m =
          push (set_if_truthy ''encodingFormat''
                  (or_else (getAttribute e ''type'') (image_type href))
                  [(''type'', ''LinkedResource''), (''url'', href)]) m"
    using assms by (simp add: scan_object_def Let_def)
qed (simp_all add: entry_url_def map_of_set_if_truthy or_else_image_type_falsy)

lemma scan_object_nonrel:
  "getAttribute e ''data'' = Some href \<Longrightarrow> \<not> rel href \<Longrightarrow> scan_object rel e m = m"
  by (simp add: scan_object_def)

lemma scan_img_rel:
  assumes "getAttribute e ''src'' = Some href" "href \<noteq> []" "rel href"
  shows "\<exists>r. scan_img rel e m = push r m \<and> entry_url r = Some href \<and>
             map_of r ''encodingFormat'' = image_type href \<and>
             map_of r ''description''
               = (if truthy (getAttribute e ''alt'') then getAttribute e ''alt'' else None)"
proof (intro exI conjI)
  show "scan_img rel e m =
          push (set_if_truthy ''description'' (getAttribute e ''alt'')
                 (set_if_truthy ''encodingFormat'' (image_type href)
                    [(''type'', ''LinkedResource''), (''url'', href)])) m"
    using assms by (simp add: scan_img_def Let_def)
qed (simp_all add: entry_url_def map_of_set_if_truthy image_type_falsy)

lemma scan_img_nonrel:
  "getAttribute e ''src'' = Some href \<Longrightarrow> \<not> rel href \<Longrightarrow> scan_img rel e m = m"
  by (simp add: scan_img_def)

lemma scan_a_rel:
  assumes "getAttribute e ''href'' = Some href" "href \<noteq> []" "rel href"
  shows "\<exists>r. scan_a rel e m = push r m \<and> entry_url r = Some href \<and>
             map_of r ''encodingFormat'' = or_else (getAttribute e ''type'') (image_type href)"
proof (intro exI conjI)
  show "scan_a rel e m =
          push (set_if_truthy ''description'' (getAttribute e ''title'')
                 (set_if_truthy ''rel'' (getAttribute e ''rel'')
                   (set_if_truthy ''encodingFormat''
                      (or_else (getAttribute e ''type'') (image_type href))
                      [(''type'', ''LinkedResource''), (''url'', href)]))) m"
    using assms by (simp add: scan_a_def Let_def)
qed (simp_all add: entry_url_def map_of_set_if_truthy or_else_image_type_falsy)

lemma scan_a_nonrel:
  "getAttribute e ''href'' = Some href \<Longrightarrow> \<not> rel href \<Longrightarrow> scan_a rel e m = m"
  by (simp add: scan_a_def)

lemma scan_script_rel:
  assumes "getAttribute e ''src'' = Some href" "href \<noteq> []" "rel href"
    "getAttribute e ''class'' \<noteq> Some ''remove''"
  shows "\<exists>r. produced m (scan_script rel e m) = [r] \<and> entry_url r = Some href"
  using assms
  by (auto simp: scan_script_def Let_def entry_url_def map_of_set_prop split: option.splits)

lemma scan_script_nonrel:
  "getAttribute e ''src'' = Some href \<Longrightarrow> \<not> rel href \<Longrightarrow> scan_script rel e m = m"
  by (simp add: scan_script_def)

subsection \<open>Which elements produce a resource\<close>

text \<open>
  C10. An element whose reference attribute is absent or empty leaves the manifest as
  it is, whatever classifier the callbacks are given: the classifier is not consulted.
  Over a whole document, two classifiers that agree on every string that is not empty
  give the same scan, so the scan never depends on what the classifier makes of the
  empty string.
\<close>

theorem absent_or_empty_reference_skipped:
  assumes "\<And>s. s \<noteq> [] \<Longrightarrow> rel' s = rel s"
  shows "(getAttribute e ''data'' = None \<or> getAttribute e ''data'' = Some []
            \<longrightarrow> scan_object rel e m = m) \<and>
         (getAttribute e ''src'' = None \<or> getAttribute e ''src'' = Some []
            \<longrightarrow> scan_img rel e m = m \<and> scan_script rel e m = m) \<and>
         (getAttribute e ''href'' = None \<or> getAttribute e ''href'' = Some []
            \<longrightarrow> scan_a rel e m = m) \<and>
         scan_document rel' d m = scan_document rel d m"
proof -
  have "scan_object rel' = scan_object rel"
    using assms by (auto simp: fun_eq_iff scan_object_def split: option.splits)
  moreover have "scan_img rel' = scan_img rel"
    using assms by (auto simp: fun_eq_iff scan_img_def split: option.splits)
  moreover have "scan_a rel' = scan_a rel"
    using assms by (auto simp: fun_eq_iff scan_a_def split: option.splits)
  moreover have "scan_script rel' = scan_script rel"
    using assms by (auto simp: fun_eq_iff scan_script_def split: option.splits)
  ultimately have "scan_document rel' d m = scan_document rel d m"
    by (simp add: scan_document_def)
  then show ?thesis
    by (simp add: scan_object_skip scan_img_skip scan_a_skip scan_script_skip)
qed

theorem absent_or_empty_reference_skipped_witness:
  "getAttribute example_empty_link ''href'' = Some [] \<and>
   getAttribute example_empty_link ''src'' = None \<and>
   getAttribute example_empty_link ''data'' = None \<and>
   scan_object is_relative example_empty_link initial_manifest = initial_manifest \<and>
   scan_img is_relative example_empty_link initial_manifest = initial_manifest \<and>
   scan_script is_relative example_empty_link initial_manifest = initial_manifest \<and>
   scan_a is_relative example_empty_link initial_manifest = initial_manifest \<and>
   scan_document (\<lambda>s. s \<noteq> [] \<and> is_relative s) example_document initial_manifest
     = scan_document is_relative example_document initial_manifest"
proof -
  have a: "getAttribute example_empty_link ''href'' = Some []"
    by (simp add: example_empty_link_def getAttribute_def)
  have s: "getAttribute example_empty_link ''src'' = None"
    by (simp add: example_empty_link_def getAttribute_def)
  have o: "getAttribute example_empty_link ''data'' = None"
    by (simp add: example_empty_link_def getAttribute_def)
  have r: "\<And>s. s \<noteq> [] \<Longrightarrow> (s \<noteq> [] \<and> is_relative s) = is_relative s"
    by simp
  from absent_or_empty_reference_skipped
         [of "\<lambda>s. s \<noteq> [] \<and> is_relative s" is_relative example_empty_link initial_manifest
             example_document, OF r]
       a s o
  show ?thesis by simp
qed

subsection \<open>The encoding format\<close>

lemma script_js_format:
  assumes "getAttribute e ''class'' \<noteq> Some ''remove''"
    and "getAttribute e ''src'' = Some href" and "href \<noteq> []" and "rel href"
    and "endsWith href ''.js''"
  shows "scan_script rel e m =
           push [(''type'', ''LinkedResource''), (''url'', href),
                 (''encodingFormat'', ''application/Javascript'')] m"
  using assms by (simp add: scan_script_def set_prop_def)

text \<open>
  C3. The script \<^verbatim>\<open><script src="lib.mjs" type="module">\<close> is not marked for
  removal, its source is relative and does not end in \<^verbatim>\<open>.js\<close>. The resource it
  produces has no \<^verbatim>\<open>encodingFormat\<close>; the value of the type attribute is written
  to the property \<^verbatim>\<open>encodingFormat\<close> of the manifest itself (line 296 assigns to
  \<^verbatim>\<open>manifest\<close>, where the callbacks for \<^verbatim>\<open>object\<close> and \<^verbatim>\<open>a\<close> assign to
  \<^verbatim>\<open>retval\<close>).
\<close>

theorem script_type_written_to_manifest:
  "getAttribute example_module_script ''class'' \<noteq> Some ''remove'' \<and>
   is_relative ''lib.mjs'' \<and>
   produced initial_manifest (scan_script is_relative example_module_script initial_manifest)
     = [[(''type'', ''LinkedResource''), (''url'', ''lib.mjs'')]] \<and>
   props (scan_script is_relative example_module_script initial_manifest)
     = [(''encodingFormat'', JStr ''module'')]"
  by (simp add: example_module_script_def getAttribute_def is_relative_def startsWith_def endsWith_def
      scan_script_def produced_def push_def set_manifest_prop_def set_prop_def initial_manifest_def)

lemma suffix_clash:
  "suffix p s \<Longrightarrow> \<not> suffix p q \<Longrightarrow> \<not> suffix q p \<Longrightarrow> \<not> suffix q s"
  using suffix_same_cases by blast

lemma image_type_gif: "suffix ''.gif'' s \<Longrightarrow> image_type s = Some ''image/gif''"
  by (simp add: image_type_def endsWith_suffix)

lemma image_type_png: "suffix ''.png'' s \<Longrightarrow> image_type s = Some ''image/png''"
  using suffix_clash [of "''.png''" s "''.gif''"]
  by (simp add: image_type_def endsWith_suffix suffix_to_prefix)

lemma image_type_bmp: "suffix ''.bmp'' s \<Longrightarrow> image_type s = Some ''image/bmp''"
  using suffix_clash [of "''.bmp''" s "''.gif''"]
    suffix_clash [of "''.bmp''" s "''.png''"]
  by (simp add: image_type_def endsWith_suffix suffix_to_prefix)

lemma image_type_jpg: "suffix ''.jpg'' s \<Longrightarrow> image_type s = Some ''image/jpeg''"
  using suffix_clash [of "''.jpg''" s "''.gif''"]
    suffix_clash [of "''.jpg''" s "''.png''"]
    suffix_clash [of "''.jpg''" s "''.bmp''"]
  by (simp add: image_type_def endsWith_suffix suffix_to_prefix)

lemma image_type_jpeg: "suffix ''.jpeg'' s \<Longrightarrow> image_type s = Some ''image/jpeg''"
  using suffix_clash [of "''.jpeg''" s "''.gif''"]
    suffix_clash [of "''.jpeg''" s "''.png''"]
    suffix_clash [of "''.jpeg''" s "''.bmp''"]
  by (simp add: image_type_def endsWith_suffix suffix_to_prefix)

lemma image_type_svg: "suffix ''.svg'' s \<Longrightarrow> image_type s = Some ''image/svg+xml''"
  using suffix_clash [of "''.svg''" s "''.gif''"]
    suffix_clash [of "''.svg''" s "''.png''"]
    suffix_clash [of "''.svg''" s "''.bmp''"]
    suffix_clash [of "''.svg''" s "''.jpg''"]
    suffix_clash [of "''.svg''" s "''.jpeg''"]
  by (simp add: image_type_def endsWith_suffix suffix_to_prefix)

lemma image_type_pdf: "suffix ''.pdf'' s \<Longrightarrow> image_type s = Some ''application/pdf''"
  using suffix_clash [of "''.pdf''" s "''.gif''"]
    suffix_clash [of "''.pdf''" s "''.png''"]
    suffix_clash [of "''.pdf''" s "''.bmp''"]
    suffix_clash [of "''.pdf''" s "''.jpg''"]
    suffix_clash [of "''.pdf''" s "''.jpeg''"]
    suffix_clash [of "''.pdf''" s "''.svg''"]
  by (simp add: image_type_def endsWith_suffix suffix_to_prefix)

lemma image_type_table:
  "(ext, mime) \<in> set sniff_table \<Longrightarrow> suffix ext s \<Longrightarrow> image_type s = Some mime"
  unfolding sniff_table_def
  using image_type_gif image_type_png image_type_bmp image_type_jpg image_type_jpeg
    image_type_svg image_type_pdf
  by auto

lemma image_type_none:
  "\<forall>(ext, mime) \<in> set sniff_table. \<not> suffix ext s \<Longrightarrow> image_type s = None"
  by (simp add: sniff_table_def image_type_def endsWith_suffix)

lemma produced_object:
  assumes "produced m (scan_object rel e m) = [r]"
  shows "\<exists>href. getAttribute e ''data'' = Some href \<and> href \<noteq> [] \<and> rel href"
  using assms by (auto simp: scan_object_def split: option.splits if_splits)

lemma produced_img:
  assumes "produced m (scan_img rel e m) = [r]"
  shows "\<exists>href. getAttribute e ''src'' = Some href \<and> href \<noteq> [] \<and> rel href"
  using assms by (auto simp: scan_img_def split: option.splits if_splits)

lemma produced_a:
  assumes "produced m (scan_a rel e m) = [r]"
  shows "\<exists>href. getAttribute e ''href'' = Some href \<and> href \<noteq> [] \<and> rel href"
  using assms by (auto simp: scan_a_def split: option.splits if_splits)


text \<open>
  C4, as stated, fails twice. The callback for \<^verbatim>\<open>img\<close> never reads a type
  attribute: \<^verbatim>\<open><img src="pic.png" type="image/webp">\<close> gets the format of its file
  extension. And a type attribute that is present and empty is passed over by
  \<^verbatim>\<open>||\<close>: \<^verbatim>\<open><a href="paper.pdf" type="">\<close> gets the format of its file extension.
\<close>

theorem type_attribute_counterexample:
  "getAttribute example_typed_img ''type'' = Some ''image/webp'' \<and>
   produced initial_manifest (scan_img is_relative example_typed_img initial_manifest)
     = [[(''type'', ''LinkedResource''), (''url'', ''pic.png''),
         (''encodingFormat'', ''image/png'')]] \<and>
   getAttribute example_empty_type_link ''type'' = Some [] \<and>
   produced initial_manifest (scan_a is_relative example_empty_type_link initial_manifest)
     = [[(''type'', ''LinkedResource''), (''url'', ''paper.pdf''),
         (''encodingFormat'', ''application/pdf'')]]"
  by (simp add: example_typed_img_def example_empty_type_link_def getAttribute_def
      is_relative_def startsWith_def endsWith_def image_type_def or_else_def
      scan_img_def scan_a_def set_if_truthy_def set_prop_def)

text \<open>
  C4, amended. The \<^verbatim>\<open>encodingFormat\<close> of the LinkedResource produced for an
  \<^verbatim>\<open>object\<close> or an \<^verbatim>\<open>a\<close> element is the type attribute of the element when that
  is present and not empty, and otherwise what the file extension of the reference
  gives; for an \<^verbatim>\<open>img\<close> element it is always what the file extension gives. The
  file extension gives the format the table lists for it, and nothing, so that the
  field is left out, when the reference ends in none of the extensions.
\<close>

theorem encoding_format_inferred:
  "(produced m (scan_object is_relative e m) = [r] \<longrightarrow>
      (\<exists>href. getAttribute e ''data'' = Some href \<and>
         map_of r ''encodingFormat'' =
           (case getAttribute e ''type'' of
              None \<Rightarrow> image_type href
            | Some t \<Rightarrow> if t \<noteq> [] then Some t else image_type href))) \<and>
   (produced m (scan_a is_relative e m) = [r] \<longrightarrow>
      (\<exists>href. getAttribute e ''href'' = Some href \<and>
         map_of r ''encodingFormat'' =
           (case getAttribute e ''type'' of
              None \<Rightarrow> image_type href
            | Some t \<Rightarrow> if t \<noteq> [] then Some t else image_type href))) \<and>
   (produced m (scan_img is_relative e m) = [r] \<longrightarrow>
      (\<exists>href. getAttribute e ''src'' = Some href \<and>
         map_of r ''encodingFormat'' = image_type href)) \<and>
   (\<forall>(ext, mime) \<in> set sniff_table. suffix ext s \<longrightarrow> image_type s = Some mime) \<and>
   ((\<forall>(ext, mime) \<in> set sniff_table. \<not> suffix ext s) \<longrightarrow> image_type s = None)"
proof -
  have or_else_case:
    "or_else ty b = (case ty of None \<Rightarrow> b | Some t \<Rightarrow> if t \<noteq> [] then Some t else b)" for ty b
    by (cases ty) (simp_all add: or_else_def)
  have c1: "\<exists>href. getAttribute e ''data'' = Some href \<and>
              map_of r ''encodingFormat'' =
                (case getAttribute e ''type'' of
                   None \<Rightarrow> image_type href
                 | Some t \<Rightarrow> if t \<noteq> [] then Some t else image_type href)"
    if p: "produced m (scan_object is_relative e m) = [r]"
  proof -
    from produced_object [OF p] obtain h
      where h: "getAttribute e ''data'' = Some h" "h \<noteq> []" "is_relative h"
      by blast
    from scan_object_rel [where rel = is_relative, OF h, of m] p
    have "map_of r ''encodingFormat'' = or_else (getAttribute e ''type'') (image_type h)"
      by auto
    with h(1) show ?thesis by (simp add: or_else_case)
  qed
  have c2: "\<exists>href. getAttribute e ''href'' = Some href \<and>
              map_of r ''encodingFormat'' =
                (case getAttribute e ''type'' of
                   None \<Rightarrow> image_type href
                 | Some t \<Rightarrow> if t \<noteq> [] then Some t else image_type href)"
    if p: "produced m (scan_a is_relative e m) = [r]"
  proof -
    from produced_a [OF p] obtain h
      where h: "getAttribute e ''href'' = Some h" "h \<noteq> []" "is_relative h"
      by blast
    from scan_a_rel [where rel = is_relative, OF h, of m] p
    have "map_of r ''encodingFormat'' = or_else (getAttribute e ''type'') (image_type h)"
      by auto
    with h(1) show ?thesis by (simp add: or_else_case)
  qed
  have c3: "\<exists>href. getAttribute e ''src'' = Some href \<and>
              map_of r ''encodingFormat'' = image_type href"
    if p: "produced m (scan_img is_relative e m) = [r]"
  proof -
    from produced_img [OF p] obtain h
      where h: "getAttribute e ''src'' = Some h" "h \<noteq> []" "is_relative h"
      by blast
    from scan_img_rel [where rel = is_relative, OF h, of m] p
    have "map_of r ''encodingFormat'' = image_type h"
      by auto
    with h(1) show ?thesis by simp
  qed
  have t1: "\<forall>(ext, mime) \<in> set sniff_table. suffix ext s \<longrightarrow> image_type s = Some mime"
    using image_type_table by blast
  have t2: "(\<forall>(ext, mime) \<in> set sniff_table. \<not> suffix ext s) \<longrightarrow> image_type s = None"
    using image_type_none by blast
  from c1 c2 c3 t1 t2 show ?thesis by blast
qed

theorem encoding_format_inferred_witness:
  "produced initial_manifest (scan_a is_relative example_typed_link initial_manifest)
     = [[(''type'', ''LinkedResource''), (''url'', ''paper.pdf''),
         (''encodingFormat'', ''text/plain'')]] \<and>
   getAttribute example_typed_link ''type'' = Some ''text/plain'' \<and>
   (''.pdf'', ''application/pdf'') \<in> set sniff_table \<and> suffix ''.pdf'' ''paper.pdf'' \<and>
   image_type ''paper.pdf'' = Some ''application/pdf'' \<and>
   (\<exists>href. getAttribute example_typed_link ''href'' = Some href \<and>
      map_of [(''type'', ''LinkedResource''), (''url'', ''paper.pdf''),
              (''encodingFormat'', ''text/plain'')] ''encodingFormat'' =
        (case getAttribute example_typed_link ''type'' of
           None \<Rightarrow> image_type href
         | Some t \<Rightarrow> if t \<noteq> [] then Some t else image_type href))"
proof -
  have p: "produced initial_manifest (scan_a is_relative example_typed_link initial_manifest)
     = [[(''type'', ''LinkedResource''), (''url'', ''paper.pdf''),
         (''encodingFormat'', ''text/plain'')]]"
    by (simp add: example_typed_link_def getAttribute_def is_relative_def startsWith_def
        or_else_def scan_a_def set_if_truthy_def set_prop_def)
  have t: "getAttribute example_typed_link ''type'' = Some ''text/plain''"
    by (simp add: example_typed_link_def getAttribute_def)
  have mem: "(''.pdf'', ''application/pdf'') \<in> set sniff_table"
    by (simp add: sniff_table_def)
  have suf: "suffix ''.pdf'' ''paper.pdf''"
    by (simp add: suffix_to_prefix)
  from encoding_format_inferred
         [of initial_manifest example_typed_link
             "[(''type'', ''LinkedResource''), (''url'', ''paper.pdf''),
               (''encodingFormat'', ''text/plain'')]" "''paper.pdf''"]
       p t mem suf
  show ?thesis by blast
qed

subsection \<open>The resources of the status\<close>







subsection \<open>Persons\<close>

lemma person_callback_eq: "person_callback p g = (person_entry p, Some (person_entry p))"
  by (simp add: person_callback_def person_entry_def set_prop_def Let_def split: option.splits)

lemma map_persons_fst: "fst (map_persons ps g) = map person_entry ps"
  by (induction ps arbitrary: g) (simp_all add: person_callback_eq case_prod_beta)

lemma add_person_key_fst:
  "fst (add_person_key c (key, target) (m, g)) =
     (case config_get c key of
        None \<Rightarrow> m
      | Some ps \<Rightarrow> set_manifest_prop target (JArr (map person_entry ps)) m)"
  by (simp add: add_person_key_def map_persons_fst case_prod_beta split: option.splits)

lemma add_persons_fst: "fst (add_persons c (m, g)) = with_persons c m"
proof -
  define m1 where "m1 = (case editors c of None \<Rightarrow> m
               | Some ps \<Rightarrow> set_manifest_prop ''editor'' (JArr (map person_entry ps)) m)"
  define m2 where "m2 = (case authors c of None \<Rightarrow> m1
               | Some ps \<Rightarrow> set_manifest_prop ''author'' (JArr (map person_entry ps)) m1)"
  define m3 where "m3 = (case creators c of None \<Rightarrow> m2
               | Some ps \<Rightarrow> set_manifest_prop ''creator'' (JArr (map person_entry ps)) m2)"
  have "fst (add_person_key c (''editors'', ''editor'') (m, g)) = m1"
    by (simp add: add_person_key_fst config_get_def m1_def)
  then obtain g1 where s1: "add_person_key c (''editors'', ''editor'') (m, g) = (m1, g1)"
    by (metis prod.collapse)
  have "fst (add_person_key c (''authors'', ''author'') (m1, g1)) = m2"
    by (simp add: add_person_key_fst config_get_def m2_def)
  then obtain g2 where s2: "add_person_key c (''authors'', ''author'') (m1, g1) = (m2, g2)"
    by (metis prod.collapse)
  have "fst (add_person_key c (''creators'', ''creator'') (m2, g2)) = m3"
    by (simp add: add_person_key_fst config_get_def m3_def)
  then obtain g3 where s3: "add_person_key c (''creators'', ''creator'') (m2, g2) = (m3, g3)"
    by (metis prod.collapse)
  have "add_persons c (m, g) = (m3, g3)"
    by (simp add: add_persons_def person_keys_mapping_def s1 s2 s3)
  moreover have "with_persons c m = m3"
    unfolding with_persons_def Let_def m3_def m2_def m1_def ..
  ultimately show ?thesis by simp
qed

lemma props_push [simp]: "props (push r m) = props m"
  by (simp add: push_def)

lemma props_status_resources [simp]: "props (status_resources c m) = props m"
  by (simp add: status_resources_def Let_def split: option.splits)

lemma props_orcid_resource [simp]: "props (orcid_resource d m) = props m"
  by (simp add: orcid_resource_def split: option.splits)

lemma fold_keeps:
  assumes "\<And>x m. Q (f x m) = Q m"
  shows "Q (fold f xs m) = Q m"
  using assms by (induction xs arbitrary: m) simp_all

lemma props_scan_object [simp]: "props (scan_object rel e m) = props m"
  by (simp add: scan_object_def Let_def split: option.splits)

lemma props_scan_img [simp]: "props (scan_img rel e m) = props m"
  by (simp add: scan_img_def Let_def split: option.splits)

lemma props_scan_a [simp]: "props (scan_a rel e m) = props m"
  by (simp add: scan_a_def Let_def split: option.splits)

lemma props_scan_script:
  "k \<noteq> ''encodingFormat'' \<Longrightarrow> map_of (props (scan_script rel e m)) k = map_of (props m) k"
  by (simp add: scan_script_def Let_def set_manifest_prop_def map_of_set_prop split: option.splits)

lemma props_scan_document:
  assumes "k \<noteq> ''encodingFormat''"
  shows "map_of (props (scan_document rel d m)) k = map_of (props m) k"
proof -
  have "map_of (props (fold (scan_script rel) xs m')) k = map_of (props m') k" for xs m'
    by (rule fold_keeps [where Q = "\<lambda>m. map_of (props m) k"]) (simp add: props_scan_script assms)
  moreover have "props (fold (scan_a rel) xs m') = props m'" for xs m'
    by (rule fold_keeps [where Q = props]) simp
  moreover have "props (fold (scan_img rel) xs m') = props m'" for xs m'
    by (rule fold_keeps [where Q = props]) simp
  moreover have "props (fold (scan_object rel) xs m') = props m'" for xs m'
    by (rule fold_keeps [where Q = props]) simp
  ultimately show ?thesis by (simp add: scan_document_def)
qed

lemma accumulate_Inr:
  assumes "accumulate c d g = Inr (acc, g')"
  shows "\<exists>u t. querySelector (ByTagClass ''a'' ''u-url'') d = Some u \<and>
               querySelector (ByTagClass ''time'' ''dt-published'') d = Some t \<and>
               acc = scan_document is_relative d (orcid_resource d (status_resources c
                       (with_persons c
                          (set_manifest_prop ''datePublished'' (attr_json (getAttribute t ''datetime''))
                            (set_manifest_prop ''url'' (attr_json (getAttribute u ''href''))
                              (set_manifest_prop ''id''
                                 (JStr (''https://www.w3.org/TR/'' @ shortName c @ ''/''))
                                 initial_manifest))))))"
  using assms
  by (auto simp: accumulate_def Let_def case_prod_beta add_persons_fst split: option.splits)

lemma manifest_field_props:
  assumes "k \<notin> set [''@context'', ''type'', ''accessMode'', ''accessModeSufficient'',
                      ''resources'', ''links'']"
  shows "manifest_field m k = map_of (props m) k"
  using assms by (simp add: manifest_field_def to_json_def)

lemma with_persons_props:
  assumes "map_of (props m) ''editor'' = None" "map_of (props m) ''author'' = None"
    "map_of (props m) ''creator'' = None"
  shows "map_of (props (with_persons c m)) ''editor''
           = map_option (\<lambda>ps. JArr (map person_entry ps)) (editors c)"
    and "map_of (props (with_persons c m)) ''author''
           = map_option (\<lambda>ps. JArr (map person_entry ps)) (authors c)"
    and "map_of (props (with_persons c m)) ''creator''
           = map_option (\<lambda>ps. JArr (map person_entry ps)) (creators c)"
  using assms
  by (simp_all add: with_persons_def set_manifest_prop_def map_of_set_prop split: option.splits)

text \<open>
  C6. For each of the keys \<^verbatim>\<open>editors\<close>, \<^verbatim>\<open>authors\<close> and \<^verbatim>\<open>creators\<close> that the
  configuration has, the field \<^verbatim>\<open>editor\<close>, \<^verbatim>\<open>author\<close> or \<^verbatim>\<open>creator\<close> of the
  manifest is the list of the Person entries of its persons, in their order; for a key
  the configuration does not have, the manifest has no such field.
\<close>

theorem person_lists_mapped:
  assumes "build_manifest c d g = Inr (m, g')"
  shows "manifest_field m ''editor'' = map_option (\<lambda>ps. JArr (map person_entry ps)) (editors c) \<and>
         manifest_field m ''author'' = map_option (\<lambda>ps. JArr (map person_entry ps)) (authors c) \<and>
         manifest_field m ''creator'' = map_option (\<lambda>ps. JArr (map person_entry ps)) (creators c)"
proof -
  from build_manifest_Inr [OF assms] obtain acc
    where acc: "accumulate c d g = Inr (acc, g')" and m: "props m = props acc"
    by auto
  from accumulate_Inr [OF acc] obtain u t
    where a: "acc = scan_document is_relative d (orcid_resource d (status_resources c
                       (with_persons c
                          (set_manifest_prop ''datePublished'' (attr_json (getAttribute t ''datetime''))
                            (set_manifest_prop ''url'' (attr_json (getAttribute u ''href''))
                              (set_manifest_prop ''id''
                                 (JStr (''https://www.w3.org/TR/'' @ shortName c @ ''/''))
                                 initial_manifest))))))"
    by blast
  define m0 where
    "m0 = set_manifest_prop ''datePublished'' (attr_json (getAttribute t ''datetime''))
            (set_manifest_prop ''url'' (attr_json (getAttribute u ''href''))
              (set_manifest_prop ''id''
                 (JStr (''https://www.w3.org/TR/'' @ shortName c @ ''/'')) initial_manifest))"
  have none: "map_of (props m0) ''editor'' = None" "map_of (props m0) ''author'' = None"
    "map_of (props m0) ''creator'' = None"
    by (simp_all add: m0_def set_manifest_prop_def map_of_set_prop initial_manifest_def)
  have keep: "map_of (props m) k = map_of (props (with_persons c m0)) k"
    if "k \<noteq> ''encodingFormat''" for k
    using that by (simp add: m a m0_def props_scan_document)
  have "map_of (props m) ''editor'' = map_option (\<lambda>ps. JArr (map person_entry ps)) (editors c)"
    using keep [of "''editor''"] with_persons_props(1) [OF none] by simp
  moreover
  have "map_of (props m) ''author'' = map_option (\<lambda>ps. JArr (map person_entry ps)) (authors c)"
    using keep [of "''author''"] with_persons_props(2) [OF none] by simp
  moreover
  have "map_of (props m) ''creator'' = map_option (\<lambda>ps. JArr (map person_entry ps)) (creators c)"
    using keep [of "''creator''"] with_persons_props(3) [OF none] by simp
  ultimately show ?thesis by (simp add: manifest_field_props)
qed

theorem person_lists_mapped_witness:
  "build_manifest example_editors_config example_document None =
     Inr (\<lparr>resources = resources initial_manifest @ [example_pic],
            props = example_props @ [(''editor'', JArr [person_entry example_editor])]\<rparr>,
          Some (person_entry example_editor)) \<and>
   manifest_field
     \<lparr>resources = resources initial_manifest @ [example_pic],
      props = example_props @ [(''editor'', JArr [person_entry example_editor])]\<rparr> ''editor''
     = Some (JArr [JObj [(''type'', JStr ''Person''), (''name'', JStr ''A''),
                         (''affiliation'',
                          JObj [(''type'', JStr ''Organization''), (''name'', JStr ''C'')])]]) \<and>
   manifest_field
     \<lparr>resources = resources initial_manifest @ [example_pic],
      props = example_props @ [(''editor'', JArr [person_entry example_editor])]\<rparr> ''author''
     = None"
proof -
  have h: "build_manifest example_editors_config example_document None =
     Inr (\<lparr>resources = resources initial_manifest @ [example_pic],
            props = example_props @ [(''editor'', JArr [person_entry example_editor])]\<rparr>,
          Some (person_entry example_editor))"
    by code_simp
  have e: "map_option (\<lambda>ps. JArr (map person_entry ps)) (editors example_editors_config)
     = Some (JArr [JObj [(''type'', JStr ''Person''), (''name'', JStr ''A''),
                         (''affiliation'',
                          JObj [(''type'', JStr ''Organization''), (''name'', JStr ''C'')])]])"
    by code_simp
  have a: "authors example_editors_config = None"
    by code_simp
  from person_lists_mapped [OF h] h e a show ?thesis by simp
qed

subsection \<open>Errors\<close>

lemma matches_setAttribute_role: "matches sel (setAttribute ''role'' v e) = matches sel e"
  by (cases sel) (simp_all add: setAttribute_def getAttribute_def classList_def update_conv')

lemma list_ex_update_first:
  assumes "\<And>x. P (f x) = P x"
  shows "list_ex P (update_first Q f xs) = list_ex P xs"
  by (induction xs) (simp_all add: assms)

lemma querySelector_None_iff:
  "querySelector sel d = None \<longleftrightarrow> \<not> list_ex (matches sel) (all_elements d)"
  by (auto simp: querySelector_def find_None_iff list_ex_iff)

lemma querySelector_mark_toc:
  "querySelector sel (mark_toc d) = None \<longleftrightarrow> querySelector sel d = None"
  by (simp add: querySelector_None_iff mark_toc_def update_first_element_def all_elements_def
      list_ex_update_first matches_setAttribute_role)

lemma accumulate_Inl_iff:
  "accumulate c d g = Inl TypeError \<longleftrightarrow>
     querySelector (ByTagClass ''a'' ''u-url'') d = None \<or>
     querySelector (ByTagClass ''time'' ''dt-published'') d = None"
  by (simp add: accumulate_def Let_def case_prod_beta split: option.splits)

lemma build_manifest_Inl_iff:
  "build_manifest c d g = Inl TypeError \<longleftrightarrow> accumulate c d g = Inl TypeError"
  by (simp add: build_manifest_def split: sum.splits)

lemma create_manifest_fst:
  "fst (create_manifest c s) =
     (case build_manifest c (mark_toc (doc s)) (retval s) of Inl e \<Rightarrow> Inl e | Inr _ \<Rightarrow> Inr ())"
  by (simp add: create_manifest_def Let_def split: sum.splits)

text \<open>
  C7. The function ends with an error exactly when the document has no element
  \<^verbatim>\<open>a.u-url\<close> or no element \<^verbatim>\<open>time.dt-published\<close>. With both elements there, it
  returns, whatever the configuration and the rest of the document are: no missing
  attribute and no unknown status makes it fail.
\<close>

theorem aborts_exactly_without_required_element:
  "fst (create_manifest c s) =
     (if querySelector (ByTagClass ''a'' ''u-url'') (doc s) = None \<or>
         querySelector (ByTagClass ''time'' ''dt-published'') (doc s) = None
      then Inl TypeError else Inr ())"
proof -
  have "build_manifest c (mark_toc (doc s)) (retval s) = Inl TypeError \<longleftrightarrow>
          querySelector (ByTagClass ''a'' ''u-url'') (doc s) = None \<or>
          querySelector (ByTagClass ''time'' ''dt-published'') (doc s) = None"
    by (simp add: build_manifest_Inl_iff accumulate_Inl_iff querySelector_mark_toc)
  then show ?thesis
    by (cases "build_manifest c (mark_toc (doc s)) (retval s)")
       (auto simp: create_manifest_fst intro: error.exhaust)
qed

theorem aborts_exactly_without_required_element_witness:
  "fst (create_manifest example_config \<lparr>doc = example_document, retval = None\<rparr>) = Inr () \<and>
   fst (create_manifest example_config
          \<lparr>doc = \<lparr>headContent = [], bodyContent = [example_u_url, example_img]\<rparr>,
           retval = None\<rparr>) = Inl TypeError"
proof -
  have a: "querySelector (ByTagClass ''a'' ''u-url'') example_document \<noteq> None"
    by code_simp
  have t: "querySelector (ByTagClass ''time'' ''dt-published'') example_document \<noteq> None"
    by code_simp
  have n: "querySelector (ByTagClass ''time'' ''dt-published'')
             \<lparr>headContent = [], bodyContent = [example_u_url, example_img]\<rparr> = None"
    by code_simp
  from aborts_exactly_without_required_element
         [of example_config "\<lparr>doc = example_document, retval = None\<rparr>"]
       aborts_exactly_without_required_element
         [of example_config
             "\<lparr>doc = \<lparr>headContent = [], bodyContent = [example_u_url, example_img]\<rparr>,
               retval = None\<rparr>"]
       a t n
  show ?thesis by simp
qed

subsection \<open>Running twice\<close>

lemma accumulate_global:
  "map_sum id fst (accumulate c d g) = map_sum id fst (accumulate c d g')"
  by (simp add: accumulate_def Let_def case_prod_beta add_persons_fst split: option.splits)

lemma build_manifest_global:
  "map_sum id fst (build_manifest c d g) = map_sum id fst (build_manifest c d g')"
  using accumulate_global [of c d g g']
  by (auto simp: build_manifest_def split: sum.splits)

lemma create_manifest_global:
  "fst (create_manifest c (s\<lparr>retval := g\<rparr>)) = fst (create_manifest c s) \<and>
   doc (snd (create_manifest c (s\<lparr>retval := g\<rparr>))) = doc (snd (create_manifest c s))"
  using build_manifest_global [of c "mark_toc (doc s)" g "retval s"]
  by (auto simp: create_manifest_def Let_def split: sum.splits)

lemma serialized_manifest:
  assumes "build_manifest c (mark_toc (doc s)) (retval s) = Inr (m, g)"
  shows "manifest_content (doc (snd (create_manifest c s))) = Some (stringify (to_json m))"
  using assms
  by (simp add: create_manifest_def manifest_content_def inject_manifest_def Let_def
      appendChild_head_def setAttribute_def createElement_def getAttribute_def MANIFEST_ID_def)

text \<open>
  C9. A second run from the same document, with the global variable as the first run
  left it, ends as the first run does and leaves the same document: in particular the
  text of the manifest element is the same, character by character.
\<close>

theorem second_run_same_manifest:
  "fst (create_manifest c (s\<lparr>retval := retval (snd (create_manifest c s))\<rparr>))
     = fst (create_manifest c s) \<and>
   doc (snd (create_manifest c (s\<lparr>retval := retval (snd (create_manifest c s))\<rparr>)))
     = doc (snd (create_manifest c s)) \<and>
   manifest_content (doc (snd (create_manifest c (s\<lparr>retval := retval (snd (create_manifest c s))\<rparr>))))
     = manifest_content (doc (snd (create_manifest c s)))"
  using create_manifest_global [of c "retval (snd (create_manifest c s))" s] by simp

subsection \<open>The scan over the document\<close>

lemma resources_scan_object:
  "resources (scan_object rel e m) = resources m @ callback_resources (scan_object rel) e"
  by (simp add: scan_object_def callback_resources_def produced_def push_def Let_def
      split: option.splits)

lemma resources_scan_img:
  "resources (scan_img rel e m) = resources m @ callback_resources (scan_img rel) e"
  by (simp add: scan_img_def callback_resources_def produced_def push_def Let_def
      split: option.splits)

lemma resources_scan_a:
  "resources (scan_a rel e m) = resources m @ callback_resources (scan_a rel) e"
  by (simp add: scan_a_def callback_resources_def produced_def push_def Let_def
      split: option.splits)

lemma resources_scan_script:
  "resources (scan_script rel e m) = resources m @ callback_resources (scan_script rel) e"
  by (simp add: scan_script_def callback_resources_def produced_def push_def Let_def
      set_manifest_prop_def split: option.splits)

lemma produced_callback:
  assumes "\<And>m. resources (f e m) = resources m @ callback_resources f e"
  shows "produced m (f e m) = callback_resources f e"
  by (simp add: produced_def assms)

lemma fold_resources:
  assumes "\<And>e m. resources (f e m) = resources m @ callback_resources f e"
  shows "resources (fold f es m) = resources m @ concat (map (callback_resources f) es)"
  by (induction es arbitrary: m) (simp_all add: assms)

lemma produced_scan_document:
  "produced m (scan_document rel d m) =
     concat (map (callback_resources (scan_object rel)) (querySelectorAll (ByTag ''object'') d))
     @ concat (map (callback_resources (scan_img rel)) (querySelectorAll (ByTag ''img'') d))
     @ concat (map (callback_resources (scan_a rel)) (querySelectorAll (ByTag ''a'') d))
     @ concat (map (callback_resources (scan_script rel)) (querySelectorAll (ByTag ''script'') d))"
  by (simp add: scan_document_def produced_def
      fold_resources [of "scan_object rel", OF resources_scan_object]
      fold_resources [of "scan_img rel", OF resources_scan_img]
      fold_resources [of "scan_a rel", OF resources_scan_a]
      fold_resources [of "scan_script rel", OF resources_scan_script])

lemma urls_scan_object:
  "map entry_url (callback_resources (scan_object rel) e) =
     map Some (filter (\<lambda>h. h \<noteq> [] \<and> rel h)
       (case getAttribute e ''data'' of None \<Rightarrow> [] | Some v \<Rightarrow> [v]))"
proof (cases "getAttribute e ''data''")
  case None
  then show ?thesis by (simp add: callback_resources_def scan_object_skip)
next
  case (Some h)
  show ?thesis
  proof (cases "h \<noteq> [] \<and> rel h")
    case True
    with scan_object_rel [of e h rel initial_manifest] Some show ?thesis
      by (auto simp: callback_resources_def)
  next
    case False
    with Some show ?thesis
      by (auto simp: callback_resources_def scan_object_skip scan_object_nonrel)
  qed
qed

lemma urls_scan_img:
  "map entry_url (callback_resources (scan_img rel) e) =
     map Some (filter (\<lambda>h. h \<noteq> [] \<and> rel h)
       (case getAttribute e ''src'' of None \<Rightarrow> [] | Some v \<Rightarrow> [v]))"
proof (cases "getAttribute e ''src''")
  case None
  then show ?thesis by (simp add: callback_resources_def scan_img_skip)
next
  case (Some h)
  show ?thesis
  proof (cases "h \<noteq> [] \<and> rel h")
    case True
    with scan_img_rel [of e h rel initial_manifest] Some show ?thesis
      by (auto simp: callback_resources_def)
  next
    case False
    with Some show ?thesis
      by (auto simp: callback_resources_def scan_img_skip scan_img_nonrel)
  qed
qed

lemma urls_scan_a:
  "map entry_url (callback_resources (scan_a rel) e) =
     map Some (filter (\<lambda>h. h \<noteq> [] \<and> rel h)
       (case getAttribute e ''href'' of None \<Rightarrow> [] | Some v \<Rightarrow> [v]))"
proof (cases "getAttribute e ''href''")
  case None
  then show ?thesis by (simp add: callback_resources_def scan_a_skip)
next
  case (Some h)
  show ?thesis
  proof (cases "h \<noteq> [] \<and> rel h")
    case True
    with scan_a_rel [of e h rel initial_manifest] Some show ?thesis
      by (auto simp: callback_resources_def)
  next
    case False
    with Some show ?thesis
      by (auto simp: callback_resources_def scan_a_skip scan_a_nonrel)
  qed
qed

lemma scan_script_removed:
  "getAttribute e ''class'' = Some ''remove'' \<Longrightarrow> scan_script rel e m = m"
  by (simp add: scan_script_def)

lemma urls_scan_script:
  "map entry_url (callback_resources (scan_script rel) e) =
     map Some (filter (\<lambda>h. h \<noteq> [] \<and> rel h)
       (if getAttribute e ''class'' = Some ''remove'' then []
        else (case getAttribute e ''src'' of None \<Rightarrow> [] | Some v \<Rightarrow> [v])))"
proof (cases "getAttribute e ''class'' = Some ''remove''")
  case True
  then show ?thesis by (simp add: callback_resources_def scan_script_removed)
next
  case keep: False
  show ?thesis
  proof (cases "getAttribute e ''src''")
    case None
    with keep show ?thesis by (simp add: callback_resources_def scan_script_skip)
  next
    case (Some h)
    show ?thesis
    proof (cases "h \<noteq> [] \<and> rel h")
      case True
      with scan_script_rel [of e h rel initial_manifest] Some keep show ?thesis
        by (auto simp: callback_resources_def)
    next
      case False
      with Some keep show ?thesis
        by (auto simp: callback_resources_def scan_script_skip scan_script_nonrel)
    qed
  qed
qed

lemma urls_concat:
  assumes "\<And>e. map entry_url (callback_resources f e) =
             map Some (filter P (case getAttribute e a of None \<Rightarrow> [] | Some v \<Rightarrow> [v]))"
  shows "map entry_url (concat (map (callback_resources f) es)) =
           map Some (filter P (attribute_values a es))"
  by (induction es) (simp_all add: attribute_values_def assms)

lemma urls_concat_script:
  "map entry_url (concat (map (callback_resources (scan_script rel)) es)) =
     map Some (filter (\<lambda>h. h \<noteq> [] \<and> rel h)
       (attribute_values ''src'' (filter (\<lambda>e. getAttribute e ''class'' \<noteq> Some ''remove'') es)))"
  by (induction es) (simp_all add: attribute_values_def urls_scan_script)

lemma urls_scan_document:
  "map entry_url (produced m (scan_document rel d m)) =
     map Some (filter (\<lambda>h. h \<noteq> [] \<and> rel h) (scanned_references d))"
  by (simp add: produced_scan_document scanned_references_def urls_concat_script
      urls_concat [of "scan_object rel", OF urls_scan_object]
      urls_concat [of "scan_img rel", OF urls_scan_img]
      urls_concat [of "scan_a rel", OF urls_scan_a])


text \<open>
  C2, as stated, fails on a reference that is present and empty: the classifier calls
  the empty string relative (it has no first character and none of the three
  prefixes), and the scan produces nothing for \<^verbatim>\<open><a href="">\<close>, since the guard
  \<^verbatim>\<open>href && ...\<close> stops at the empty string.
\<close>

theorem empty_reference_counterexample:
  "getAttribute example_empty_link ''href'' = Some [] \<and> is_relative [] \<and>
   produced initial_manifest (scan_a is_relative example_empty_link initial_manifest) = []"
  by (simp add: example_empty_link_def getAttribute_def is_relative_def startsWith_def scan_a_def)

text \<open>
  C2, amended. For an element of each of the four kinds whose reference attribute is a
  string that is not empty, the scan produces one LinkedResource, with the reference as
  its url, when the reference is classified relative, and nothing otherwise; a script
  of class \<^verbatim>\<open>remove\<close> is skipped, whatever its source. A reference is classified
  non-relative exactly when its first character is \<^verbatim>\<open>#\<close> or it starts with
  \<^verbatim>\<open>http://\<close>, \<^verbatim>\<open>https://\<close> or \<^verbatim>\<open>mailto:\<close>. The links \<^verbatim>\<open><a href="#frag">\<close>
  and \<^verbatim>\<open><a href="https://example.com/x">\<close> produce nothing.

  The scan of a document is these callbacks on its elements: what it adds to the
  resources is what the callbacks produce for the objects, the images, the links and
  the scripts of the document, in this order, one element after the other. So the urls
  it adds are exactly the references of the scanned elements that are not empty and
  are classified relative, in the order of the scan.
\<close>

theorem relative_reference_scanned:
  assumes "href \<noteq> []"
  shows "(getAttribute e ''data'' = Some href \<longrightarrow>
            (if is_relative href
             then \<exists>r. produced m (scan_object is_relative e m) = [r] \<and> entry_url r = Some href
             else scan_object is_relative e m = m)) \<and>
         (getAttribute e ''src'' = Some href \<longrightarrow>
            (if is_relative href
             then \<exists>r. produced m (scan_img is_relative e m) = [r] \<and> entry_url r = Some href
             else scan_img is_relative e m = m)) \<and>
         (getAttribute e ''href'' = Some href \<longrightarrow>
            (if is_relative href
             then \<exists>r. produced m (scan_a is_relative e m) = [r] \<and> entry_url r = Some href
             else scan_a is_relative e m = m)) \<and>
         (getAttribute e ''src'' = Some href \<and> getAttribute e ''class'' \<noteq> Some ''remove'' \<longrightarrow>
            (if is_relative href
             then \<exists>r. produced m (scan_script is_relative e m) = [r] \<and> entry_url r = Some href
             else scan_script is_relative e m = m)) \<and>
         (\<not> is_relative href \<longleftrightarrow>
            (\<exists>cs. href = CHR ''#'' # cs) \<or> prefix ''http://'' href \<or>
            prefix ''https://'' href \<or> prefix ''mailto:'' href) \<and>
         scan_a is_relative example_fragment_link m = m \<and>
         scan_a is_relative example_absolute_link m = m \<and>
         (getAttribute e ''class'' = Some ''remove'' \<longrightarrow> scan_script is_relative e m = m) \<and>
         produced m (scan_object is_relative e m) = callback_resources (scan_object is_relative) e \<and>
         produced m (scan_img is_relative e m) = callback_resources (scan_img is_relative) e \<and>
         produced m (scan_a is_relative e m) = callback_resources (scan_a is_relative) e \<and>
         produced m (scan_script is_relative e m) = callback_resources (scan_script is_relative) e \<and>
         produced m (scan_document is_relative d m) =
           concat (map (callback_resources (scan_object is_relative))
                     (querySelectorAll (ByTag ''object'') d))
           @ concat (map (callback_resources (scan_img is_relative))
                       (querySelectorAll (ByTag ''img'') d))
           @ concat (map (callback_resources (scan_a is_relative))
                       (querySelectorAll (ByTag ''a'') d))
           @ concat (map (callback_resources (scan_script is_relative))
                       (querySelectorAll (ByTag ''script'') d)) \<and>
         map entry_url (produced m (scan_document is_relative d m)) =
           map Some (filter (\<lambda>h. h \<noteq> [] \<and> is_relative h) (scanned_references d))"
proof -
  have frag: "scan_a is_relative example_fragment_link m = m"
    by (simp add: example_fragment_link_def getAttribute_def is_relative_def scan_a_def)
  have abs: "scan_a is_relative example_absolute_link m = m"
    by (simp add: example_absolute_link_def getAttribute_def is_relative_def startsWith_def
        scan_a_def)
  have removed: "getAttribute e ''class'' = Some ''remove'' \<longrightarrow> scan_script is_relative e m = m"
    by (simp add: scan_script_removed)
  have cb: "produced m (scan_object is_relative e m) = callback_resources (scan_object is_relative) e"
    "produced m (scan_img is_relative e m) = callback_resources (scan_img is_relative) e"
    "produced m (scan_a is_relative e m) = callback_resources (scan_a is_relative) e"
    "produced m (scan_script is_relative e m) = callback_resources (scan_script is_relative) e"
    by (simp_all add: produced_callback resources_scan_object resources_scan_img
        resources_scan_a resources_scan_script)
  note whole = produced_scan_document [of m is_relative d] urls_scan_document [of m is_relative d]
  have each: "(getAttribute e ''data'' = Some href \<longrightarrow>
            (if is_relative href
             then \<exists>r. produced m (scan_object is_relative e m) = [r] \<and> entry_url r = Some href
             else scan_object is_relative e m = m)) \<and>
         (getAttribute e ''src'' = Some href \<longrightarrow>
            (if is_relative href
             then \<exists>r. produced m (scan_img is_relative e m) = [r] \<and> entry_url r = Some href
             else scan_img is_relative e m = m)) \<and>
         (getAttribute e ''href'' = Some href \<longrightarrow>
            (if is_relative href
             then \<exists>r. produced m (scan_a is_relative e m) = [r] \<and> entry_url r = Some href
             else scan_a is_relative e m = m)) \<and>
         (getAttribute e ''src'' = Some href \<and> getAttribute e ''class'' \<noteq> Some ''remove'' \<longrightarrow>
            (if is_relative href
             then \<exists>r. produced m (scan_script is_relative e m) = [r] \<and> entry_url r = Some href
             else scan_script is_relative e m = m))"
  proof (cases "is_relative href")
    case True
    have "\<exists>r. produced m (scan_object is_relative e m) = [r] \<and> entry_url r = Some href"
      if "getAttribute e ''data'' = Some href"
      using scan_object_rel [where rel = is_relative, OF that assms True, of m] by auto
    moreover have "\<exists>r. produced m (scan_img is_relative e m) = [r] \<and> entry_url r = Some href"
      if "getAttribute e ''src'' = Some href"
      using scan_img_rel [where rel = is_relative, OF that assms True, of m] by auto
    moreover have "\<exists>r. produced m (scan_a is_relative e m) = [r] \<and> entry_url r = Some href"
      if "getAttribute e ''href'' = Some href"
      using scan_a_rel [where rel = is_relative, OF that assms True, of m] by auto
    moreover have "\<exists>r. produced m (scan_script is_relative e m) = [r] \<and> entry_url r = Some href"
      if "getAttribute e ''src'' = Some href" "getAttribute e ''class'' \<noteq> Some ''remove''"
      using scan_script_rel [where rel = is_relative, OF that(1) assms True that(2)] .
    ultimately show ?thesis
      using True by simp
  next
    case False
    then show ?thesis
      by (simp add: scan_object_nonrel scan_img_nonrel scan_a_nonrel scan_script_nonrel)
  qed
  from each is_relative_iff [of href] frag abs removed cb whole show ?thesis
    by (intro conjI) blast+
qed

theorem relative_reference_scanned_witness:
  "''ch1.html'' \<noteq> [] \<and> getAttribute example_link ''href'' = Some ''ch1.html'' \<and>
   is_relative ''ch1.html'' \<and>
   (\<exists>r. produced initial_manifest (scan_a is_relative example_link initial_manifest) = [r]
        \<and> entry_url r = Some ''ch1.html'') \<and>
   getAttribute example_script ''src'' = Some ''ch1.html'' \<and>
   getAttribute example_script ''class'' \<noteq> Some ''remove'' \<and>
   (\<exists>r. produced initial_manifest (scan_script is_relative example_script initial_manifest) = [r]
        \<and> entry_url r = Some ''ch1.html'') \<and>
   getAttribute example_removed_script ''class'' = Some ''remove'' \<and>
   scan_script is_relative example_removed_script initial_manifest = initial_manifest \<and>
   scanned_references example_scan_document
     = [''#frag'', ''ch1.html'', [], ''https://example.com/x'', ''lib.mjs''] \<and>
   map entry_url
     (produced initial_manifest (scan_document is_relative example_scan_document initial_manifest))
     = [Some ''ch1.html'', Some ''lib.mjs'']"
proof -
  have rel: "is_relative ''ch1.html''"
    by (simp add: is_relative_def startsWith_def)
  have ne: "''ch1.html'' \<noteq> []"
    by simp
  have a: "getAttribute example_link ''href'' = Some ''ch1.html''"
    by (simp add: example_link_def getAttribute_def)
  have s: "getAttribute example_script ''src'' = Some ''ch1.html''"
    by (simp add: example_script_def getAttribute_def)
  have c: "getAttribute example_script ''class'' \<noteq> Some ''remove''"
    by (simp add: example_script_def getAttribute_def)
  have rm: "getAttribute example_removed_script ''class'' = Some ''remove''"
    by (simp add: example_removed_script_def getAttribute_def)
  have refs: "scanned_references example_scan_document
     = [''#frag'', ''ch1.html'', [], ''https://example.com/x'', ''lib.mjs'']"
    by code_simp
  have kept: "filter (\<lambda>h. h \<noteq> [] \<and> is_relative h)
                [''#frag'', ''ch1.html'', [], ''https://example.com/x'', ''lib.mjs'']
              = [''ch1.html'', ''lib.mjs'']"
    by code_simp
  note link = relative_reference_scanned
                [OF ne, of example_link initial_manifest example_scan_document]
  note script = relative_reference_scanned
                  [OF ne, of example_script initial_manifest example_scan_document]
  note removed = relative_reference_scanned
                   [OF ne, of example_removed_script initial_manifest example_scan_document]
  have l: "\<exists>r. produced initial_manifest (scan_a is_relative example_link initial_manifest) = [r]
        \<and> entry_url r = Some ''ch1.html''"
    using link [THEN conjunct2, THEN conjunct2, THEN conjunct1] rel a by simp
  have sc: "\<exists>r. produced initial_manifest (scan_script is_relative example_script initial_manifest) = [r]
        \<and> entry_url r = Some ''ch1.html''"
    using script [THEN conjunct2, THEN conjunct2, THEN conjunct2, THEN conjunct1] rel s c by simp
  have rmv: "scan_script is_relative example_removed_script initial_manifest = initial_manifest"
    using removed [THEN conjunct2, THEN conjunct2, THEN conjunct2, THEN conjunct2, THEN conjunct2, THEN conjunct2, THEN conjunct2, THEN conjunct1] rm by simp
  have "map entry_url
     (produced initial_manifest (scan_document is_relative example_scan_document initial_manifest))
     = map Some (filter (\<lambda>h. h \<noteq> [] \<and> is_relative h) (scanned_references example_scan_document))"
    using link [THEN conjunct2, THEN conjunct2, THEN conjunct2, THEN conjunct2, THEN conjunct2, THEN conjunct2, THEN conjunct2, THEN conjunct2, THEN conjunct2, THEN conjunct2, THEN conjunct2, THEN conjunct2, THEN conjunct2] .
  then have urls: "map entry_url
     (produced initial_manifest (scan_document is_relative example_scan_document initial_manifest))
     = [Some ''ch1.html'', Some ''lib.mjs'']"
    unfolding refs kept by simp
  from ne a rel l s c sc rm rmv refs urls show ?thesis by blast
qed

lemma resources_scan_document:
  "resources (scan_document rel d m) = resources m @ produced m (scan_document rel d m)"
  by (simp add: scan_document_def produced_def
      fold_resources [of "scan_object rel", OF resources_scan_object]
      fold_resources [of "scan_img rel", OF resources_scan_img]
      fold_resources [of "scan_a rel", OF resources_scan_a]
      fold_resources [of "scan_script rel", OF resources_scan_script])

lemma uniq_urls: "entry_url ` set (uniq arr) = entry_url ` set arr"
  by (simp add: uniq_def uniq_filter_urls)

text \<open>
  C8. An image with the source \<^verbatim>\<open>pic.png\<close> and the alternative text \<^verbatim>\<open>cap\<close>
  produces the LinkedResource with url \<^verbatim>\<open>pic.png\<close>, encodingFormat
  \<^verbatim>\<open>image/png\<close> and description \<^verbatim>\<open>cap\<close>. When such an image is in the
  document, the scan of the document produces this resource, and it is in the
  resources the run accumulates; the finished manifest has an entry with the url
  \<^verbatim>\<open>pic.png\<close>.
\<close>

theorem img_alt_example:
  assumes "getAttribute e ''src'' = Some ''pic.png''"
    and "getAttribute e ''alt'' = Some ''cap''"
  shows "produced m (scan_img is_relative e m) = [example_pic] \<and>
         map_of example_pic ''url'' = Some ''pic.png'' \<and>
         map_of example_pic ''encodingFormat'' = Some ''image/png'' \<and>
         map_of example_pic ''description'' = Some ''cap'' \<and>
         (tagName e = ''img'' \<and> e \<in> set (all_elements d) \<longrightarrow>
            example_pic \<in> set (produced m (scan_document is_relative d m)) \<and>
            (accumulate c d g = Inr (acc, g1) \<longrightarrow> example_pic \<in> set (resources acc)) \<and>
            (build_manifest c d g = Inr (fin, g2) \<longrightarrow>
               (\<exists>r \<in> set (resources fin). entry_url r = Some ''pic.png'')))"
proof -
  have one: "produced m' (scan_img is_relative e m') = [example_pic]" for m'
    using assms
    by (simp add: scan_img_def is_relative_def startsWith_def endsWith_def image_type_def
        set_if_truthy_def set_prop_def example_pic_def)
  have fields: "map_of example_pic ''url'' = Some ''pic.png''"
    "map_of example_pic ''encodingFormat'' = Some ''image/png''"
    "map_of example_pic ''description'' = Some ''cap''"
    by (simp_all add: example_pic_def)
  have whole: "example_pic \<in> set (produced m' (scan_document is_relative d m')) \<and>
       (accumulate c d g = Inr (acc, g1) \<longrightarrow> example_pic \<in> set (resources acc)) \<and>
       (build_manifest c d g = Inr (fin, g2) \<longrightarrow>
          (\<exists>r \<in> set (resources fin). entry_url r = Some ''pic.png''))"
    if img: "tagName e = ''img''" and mem: "e \<in> set (all_elements d)" for m'
  proof -
    have visited: "e \<in> set (querySelectorAll (ByTag ''img'') d)"
      using img mem by (simp add: querySelectorAll_def)
    have "callback_resources (scan_img is_relative) e = [example_pic]"
      using one [of initial_manifest] by (simp add: callback_resources_def)
    with visited have scanned: "example_pic \<in> set (produced m0 (scan_document is_relative d m0))"
      for m0
      by (force simp: produced_scan_document)
    have accumulated: "example_pic \<in> set (resources acc0)"
      if "accumulate c d g = Inr (acc0, g0)" for acc0 g0
    proof -
      from accumulate_Inr [OF that] obtain m0
        where "acc0 = scan_document is_relative d m0"
        by blast
      then show ?thesis
        using scanned [of m0] resources_scan_document [of is_relative d m0] by simp
    qed
    have finished: "\<exists>r \<in> set (resources fin). entry_url r = Some ''pic.png''"
      if "build_manifest c d g = Inr (fin, g2)"
    proof -
      from build_manifest_Inr [OF that] obtain acc0
        where acc0: "accumulate c d g = Inr (acc0, g2)"
          and fin: "resources fin = uniq (resources acc0)"
        by auto
      have "entry_url example_pic = Some ''pic.png''"
        by (simp add: entry_url_def fields)
      moreover have "entry_url example_pic \<in> entry_url ` set (resources acc0)"
        using accumulated [OF acc0] by blast
      ultimately have "Some ''pic.png'' \<in> entry_url ` set (resources fin)"
        by (simp add: fin uniq_urls)
      then show ?thesis by force
    qed
    from scanned accumulated finished show ?thesis by blast
  qed
  from one [of m] fields whole [of m] show ?thesis by blast
qed

theorem img_alt_example_witness:
  "getAttribute example_img ''src'' = Some ''pic.png'' \<and>
   getAttribute example_img ''alt'' = Some ''cap'' \<and>
   tagName example_img = ''img'' \<and> example_img \<in> set (all_elements example_document) \<and>
   produced initial_manifest (scan_img is_relative example_img initial_manifest) = [example_pic] \<and>
   example_pic \<in> set (produced initial_manifest
                         (scan_document is_relative example_document initial_manifest)) \<and>
   (\<exists>acc. accumulate example_config example_document None = Inr (acc, None) \<and>
          example_pic \<in> set (resources acc))"
proof -
  have s: "getAttribute example_img ''src'' = Some ''pic.png''"
    by (simp add: example_img_def getAttribute_def)
  have a: "getAttribute example_img ''alt'' = Some ''cap''"
    by (simp add: example_img_def getAttribute_def)
  have t: "tagName example_img = ''img''"
    by (simp add: example_img_def)
  have el: "example_img \<in> set (all_elements example_document)"
    by (simp add: all_elements_def example_document_def)
  have acc: "accumulate example_config example_document None =
     Inr (\<lparr>resources = resources initial_manifest
               @ [example_pic,
                  [(''type'', ''LinkedResource''), (''url'', ''pic.png''),
                   (''encodingFormat'', ''image/png''), (''description'', ''other'')]],
            props = example_props\<rparr>, None)"
    by code_simp
  note run = img_alt_example
               [OF s a, of initial_manifest example_document example_config None _ None]
  have one: "produced initial_manifest (scan_img is_relative example_img initial_manifest)
               = [example_pic]"
    using run [THEN conjunct1] .
  have doc: "example_pic \<in> set (produced initial_manifest
                         (scan_document is_relative example_document initial_manifest))"
    using run [THEN conjunct2, THEN conjunct2, THEN conjunct2, THEN conjunct2] t el by blast
  have "example_pic \<in> set (resources \<lparr>resources = resources initial_manifest
               @ [example_pic,
                  [(''type'', ''LinkedResource''), (''url'', ''pic.png''),
                   (''encodingFormat'', ''image/png''), (''description'', ''other'')]],
            props = example_props\<rparr>)"
    using run [THEN conjunct2, THEN conjunct2, THEN conjunct2, THEN conjunct2] t el acc by blast
  with acc have ex: "\<exists>acc. accumulate example_config example_document None = Inr (acc, None) \<and>
          example_pic \<in> set (resources acc)"
    by blast
  from s a t el one doc ex show ?thesis by blast
qed

end
